theory Spec2Isabelle
  imports Main "HOL-Library.Sublist"
begin

section \<open>Go values\<close>

text \<open>
  A Go string is a sequence of bytes, and \<open>string\<close> (a list of 8-bit \<open>char\<close>s) is
  exactly that: \<open>length\<close> is Go's \<open>len\<close>, a text in UTF-8 is the list of its bytes.
  A run-time panic of the program is a value of \<open>error\<close>; a computation that may panic
  returns \<open>error + 'a\<close>, with \<open>Inl\<close> for the panic.
\<close>

datatype error = SliceBoundsOutOfRange | IndexOutOfRange | TemplateError

definition thenDo :: "error + 'a \<Rightarrow> ('a \<Rightarrow> error + 'b) \<Rightarrow> error + 'b" where
  "thenDo m f = (case m of Inl e \<Rightarrow> Inl e | Inr x \<Rightarrow> f x)"

text \<open>The slice expression \<open>s[lo:hi]\<close> and the index expression \<open>xs[i]\<close>, with Go's bounds checks.\<close>

definition slice :: "string \<Rightarrow> int \<Rightarrow> int \<Rightarrow> error + string" where
  "slice s lo hi =
     (if 0 \<le> lo \<and> lo \<le> hi \<and> hi \<le> int (length s)
      then Inr (take (nat hi - nat lo) (drop (nat lo) s))
      else Inl SliceBoundsOutOfRange)"

definition elemAt :: "'a list \<Rightarrow> nat \<Rightarrow> error + 'a" where
  "elemAt xs i = (if i < length xs then Inr (xs ! i) else Inl IndexOutOfRange)"

subsection \<open>Bytes and character classes\<close>

definition LF :: char where "LF = CHR 0x0A"
definition CR :: char where "CR = CHR 0x0D"
definition TAB :: char where "TAB = CHR 0x09"

definition upperLetters :: string where "upperLetters = ''ABCDEFGHIJKLMNOPQRSTUVWXYZ''"
definition lowerLetters :: string where "lowerLetters = ''abcdefghijklmnopqrstuvwxyz''"
definition digits :: string where "digits = ''0123456789''"

text \<open>
  \<open>unicode.ToLower\<close> and \<open>unicode.ToTitle\<close> on an ASCII byte. Go maps every Unicode
  letter; the model has no Unicode tables and leaves a byte from \<open>0x80\<close> on as it is,
  so it is Go's function on ASCII text.
\<close>

definition toLowerByte :: "char \<Rightarrow> char" where
  "toLowerByte c = (case map_of (zip upperLetters lowerLetters) c of Some d \<Rightarrow> d | None \<Rightarrow> c)"

definition toTitleByte :: "char \<Rightarrow> char" where
  "toTitleByte c = (case map_of (zip lowerLetters upperLetters) c of Some d \<Rightarrow> d | None \<Rightarrow> c)"

text \<open>
  \<open>isSeparator\<close> of package strings: ASCII letters, digits and the underscore are not
  separators, every other ASCII byte is. (Beyond ASCII Go asks the Unicode tables; the
  model takes such a byte for a letter.)
\<close>

definition isSeparator :: "char \<Rightarrow> bool" where
  "isSeparator c \<longleftrightarrow>
     \<not> (c \<in> set digits \<or> c \<in> set lowerLetters \<or> c \<in> set upperLetters \<or> c = CHR ''_''
        \<or> 128 \<le> (of_char c :: nat))"

subsection \<open>Package strings\<close>

text \<open>\<open>strings.Index\<close>: the index of the first instance of \<open>sub\<close>, or \<open>-1\<close>.\<close>

fun Index :: "string \<Rightarrow> string \<Rightarrow> int" where
  "Index [] sub = (if sub = [] then 0 else - 1)"
| "Index (c # cs) sub =
     (if prefix sub (c # cs) then 0
      else (let r = Index cs sub in if r < 0 then - 1 else r + 1))"

text \<open>
  \<open>unicode.IsSpace\<close>, as the UTF-8 encodings of the white-space code points: the six
  ASCII ones, U+0085, U+00A0, U+1680, U+2000 to U+200A, U+2028, U+2029, U+202F, U+205F
  and U+3000. No encoding is a prefix or a suffix of another.
\<close>

definition spaceRunes :: "string list" where
  "spaceRunes =
     [[CHR 0x09], [CHR 0x0A], [CHR 0x0B], [CHR 0x0C], [CHR 0x0D], [CHR 0x20],
      [CHR 0xC2, CHR 0x85], [CHR 0xC2, CHR 0xA0], [CHR 0xE1, CHR 0x9A, CHR 0x80],
      [CHR 0xE2, CHR 0x80, CHR 0x80], [CHR 0xE2, CHR 0x80, CHR 0x81],
      [CHR 0xE2, CHR 0x80, CHR 0x82], [CHR 0xE2, CHR 0x80, CHR 0x83],
      [CHR 0xE2, CHR 0x80, CHR 0x84], [CHR 0xE2, CHR 0x80, CHR 0x85],
      [CHR 0xE2, CHR 0x80, CHR 0x86], [CHR 0xE2, CHR 0x80, CHR 0x87],
      [CHR 0xE2, CHR 0x80, CHR 0x88], [CHR 0xE2, CHR 0x80, CHR 0x89],
      [CHR 0xE2, CHR 0x80, CHR 0x8A], [CHR 0xE2, CHR 0x80, CHR 0xA8],
      [CHR 0xE2, CHR 0x80, CHR 0xA9], [CHR 0xE2, CHR 0x80, CHR 0xAF],
      [CHR 0xE2, CHR 0x81, CHR 0x9F], [CHR 0xE3, CHR 0x80, CHR 0x80]]"

text \<open>
  The width in bytes of the white-space rune a string starts with (\<open>0\<close> when it starts
  with none), and \<open>strings.TrimLeftFunc(s, unicode.IsSpace)\<close> over a table of encodings.
\<close>

definition runeWidth :: "string list \<Rightarrow> string \<Rightarrow> nat" where
  "runeWidth runes s = (case filter (\<lambda>q. prefix q s) runes of [] \<Rightarrow> 0 | q # _ \<Rightarrow> length q)"

fun stripLeft :: "string list \<Rightarrow> string \<Rightarrow> string" where
  "stripLeft runes [] = []"
| "stripLeft runes (c # cs) =
     (if runeWidth runes (c # cs) = 0 then c # cs
      else stripLeft runes (drop (runeWidth runes (c # cs) - 1) cs))"

definition TrimLeft :: "string \<Rightarrow> string" where
  "TrimLeft s = stripLeft spaceRunes s"

text \<open>Trimming on the right reads the string backwards, against the reversed encodings.\<close>

definition TrimRight :: "string \<Rightarrow> string" where
  "TrimRight s = rev (stripLeft (map rev spaceRunes) (rev s))"

text \<open>\<open>strings.TrimSpace\<close>: all leading and trailing white space removed.\<close>

definition TrimSpace :: "string \<Rightarrow> string" where
  "TrimSpace s = TrimRight (TrimLeft s)"

text \<open>\<open>strings.ToLower\<close> and \<open>strings.Title\<close> (the first letter of every word to title case).\<close>

definition ToLower :: "string \<Rightarrow> string" where
  "ToLower s = map toLowerByte s"

fun titleFrom :: "char \<Rightarrow> string \<Rightarrow> string" where
  "titleFrom prev [] = []"
| "titleFrom prev (c # cs) = (if isSeparator prev then toTitleByte c else c) # titleFrom c cs"

definition Title :: "string \<Rightarrow> string" where
  "Title s = titleFrom (CHR '' '') s"

text \<open>
  \<open>strings.ReplaceAll\<close> and \<open>strings.Split\<close> for a non-empty \<open>old\<close> or \<open>sep\<close>, which is
  what every call of the program passes: the instances are found from the left and do
  not overlap.
\<close>

fun ReplaceAll :: "string \<Rightarrow> string \<Rightarrow> string \<Rightarrow> string" where
  "ReplaceAll [] old new = []"
| "ReplaceAll (c # cs) old new =
     (if old \<noteq> [] \<and> prefix old (c # cs)
      then new @ ReplaceAll (drop (length old - 1) cs) old new
      else c # ReplaceAll cs old new)"

fun splitFrom :: "string \<Rightarrow> string \<Rightarrow> string \<Rightarrow> string list" where
  "splitFrom cur [] sep = [cur]"
| "splitFrom cur (c # cs) sep =
     (if sep \<noteq> [] \<and> prefix sep (c # cs)
      then cur # splitFrom [] (drop (length sep - 1) cs) sep
      else splitFrom (cur @ [c]) cs sep)"

definition Split :: "string \<Rightarrow> string \<Rightarrow> string list" where
  "Split s sep = splitFrom [] s sep"

text \<open>\<open>strings.Join\<close>.\<close>

fun Join :: "string list \<Rightarrow> string \<Rightarrow> string" where
  "Join [] sep = []"
| "Join [x] sep = x"
| "Join (x # y # ys) sep = x @ sep @ Join (y # ys) sep"

subsection \<open>Package regexp\<close>

text \<open>
  The regular expressions the program needs: a literal, a greedy \<open>*\<close> or \<open>+\<close> over one
  character class, a greedy \<open>?\<close>, concatenation, alternation and a numbered capture group.
  \<open>run r s c\<close> lists every way \<open>r\<close> matches a prefix of \<open>s\<close>, as the rest of the input
  with the captures, in the order a backtracking search tries them: Go's regexp
  returns the leftmost match and, among those, the one such a search finds first.
\<close>

datatype re =
    Lit string
  | Star "char \<Rightarrow> bool"
  | Plus "char \<Rightarrow> bool"
  | Opt re
  | Cat re re
  | Alt re re
  | Grp nat re

fun run :: "re \<Rightarrow> string \<Rightarrow> string list \<Rightarrow> (string \<times> string list) list" where
  "run (Lit l) s c = (if prefix l s then [(drop (length l) s, c)] else [])"
| "run (Star p) s c = map (\<lambda>k. (drop k s, c)) (rev [0 ..< Suc (length (takeWhile p s))])"
| "run (Plus p) s c = map (\<lambda>k. (drop k s, c)) (rev [1 ..< Suc (length (takeWhile p s))])"
| "run (Opt r) s c = run r s c @ [(s, c)]"
| "run (Cat a b) s c = concat (map (\<lambda>(s', c'). run b s' c') (run a s c))"
| "run (Alt a b) s c = run a s c @ run b s c"
| "run (Grp n r) s c =
     map (\<lambda>(s', c'). (s', c'[n := take (length s - length s') s])) (run r s c)"

text \<open>
  \<open>FindStringSubmatch\<close> for an expression with \<open>n\<close> groups: the match and the text of
  each group (empty for a group that took no part), or \<open>nil\<close>, the empty list, when
  the expression matches nowhere.
\<close>

fun findFrom :: "re \<Rightarrow> nat \<Rightarrow> string \<Rightarrow> string list" where
  "findFrom r n s =
     (case run r s (replicate (Suc n) []) of
        (rest, c) # _ \<Rightarrow> c[0 := take (length s - length rest) s]
      | [] \<Rightarrow> (case s of [] \<Rightarrow> [] | _ # t \<Rightarrow> findFrom r n t))"

text \<open>The classes \<open>\w\<close>, \<open>\S\<close> and \<open>.\<close> of Go's syntax.\<close>

definition wordChar :: "char \<Rightarrow> bool" where
  "wordChar c \<longleftrightarrow> c \<in> set digits \<or> c \<in> set upperLetters \<or> c \<in> set lowerLetters \<or> c = CHR ''_''"

definition nonSpace :: "char \<Rightarrow> bool" where
  "nonSpace c \<longleftrightarrow> c \<notin> {CHR 0x09, CHR 0x0A, CHR 0x0C, CHR 0x0D, CHR 0x20}"

definition anyChar :: "char \<Rightarrow> bool" where
  "anyChar c \<longleftrightarrow> c \<noteq> CHR 0x0A"

subsection \<open>Package bufio\<close>

text \<open>
  A \<open>bufio.Scanner\<close> with its default split function \<open>ScanLines\<close>: the lines of the
  text, without the line feed and without one carriage return before it; an empty
  last line is not a line. The scanner's buffer holds \<open>MaxScanTokenSize\<close> bytes: at a
  line of that many bytes or more it stops, and the loop over it ends.
\<close>

definition MaxScanTokenSize :: nat where
  "MaxScanTokenSize = 64 * 1024"

definition dropCR :: "string \<Rightarrow> string" where
  "dropCR data = (if data \<noteq> [] \<and> last data = CR then butlast data else data)"

fun scanFrom :: "string \<Rightarrow> string \<Rightarrow> string list" where
  "scanFrom cur [] =
     (if cur = [] \<or> MaxScanTokenSize \<le> length cur then [] else [dropCR cur])"
| "scanFrom cur (c # cs) =
     (if c = LF
      then (if MaxScanTokenSize \<le> length cur then [] else dropCR cur # scanFrom [] cs)
      else scanFrom (cur @ [c]) cs)"

definition scanLines :: "string \<Rightarrow> string list" where
  "scanLines text = scanFrom [] text"

section \<open>The line parser\<close>

record genValue =
  element :: string
  title :: string
  "value" :: string
  key :: string
  required :: bool
  options :: "(string \<times> string) list"

definition zeroValue :: genValue where
  "zeroValue = \<lparr>element = [], title = [], value = [], key = [], required = False, options = []\<rparr>"

text \<open>The pattern \<^verbatim>\<open>(form-\w+)|([!]?)(\S*)(\[.*\])([#]\S+)?\<close> of \<open>parseFormat\<close>.\<close>

definition pattern :: re where
  "pattern =
     Alt (Grp 1 (Cat (Lit ''form-'') (Plus wordChar)))
         (Cat (Grp 2 (Opt (Lit ''!'')))
         (Cat (Grp 3 (Star nonSpace))
         (Cat (Grp 4 (Cat (Lit ''['') (Cat (Star anyChar) (Lit '']''))))
              (Opt (Grp 5 (Cat (Lit ''#'') (Plus nonSpace)))))))"

definition FindStringSubmatch :: "string \<Rightarrow> string list" where
  "FindStringSubmatch s = findFrom pattern 5 s"

text \<open>
  The body of the loop of \<open>parseFormat\<close>, for one line. The line is cut at the first
  \<open>=\<close>; \<open>strings.Index\<close> answers \<open>-1\<close> for a line without one, and the slice
  \<open>line[0:-1]\<close> panics. Both sides are trimmed, and \<open>directive\<close> (lines 104 to
  122) builds the value from them: \<open>matches\<close> is \<open>nil\<close> when the left side does not
  match the pattern, and \<open>matches[1]\<close> panics then.
\<close>

definition directive :: "string \<Rightarrow> string \<Rightarrow> error + genValue" where
  "directive left val =
     (let v = zeroValue\<lparr>value := val\<rparr>;
          matches = FindStringSubmatch left;
          v = (if 2 < length matches \<and> matches ! 2 = ''!'' then v\<lparr>required := True\<rparr> else v)
      in
      thenDo (elemAt matches 1) (\<lambda>m1.
      thenDo (if m1 \<noteq> [] then Inr (v\<lparr>element := TrimSpace m1\<rparr>)
              else thenDo (elemAt matches 3) (\<lambda>m3.
                Inr (if m3 \<noteq> [] then v\<lparr>element := TrimSpace m3\<rparr> else v))) (\<lambda>v.
      thenDo (if 4 < length matches \<and> matches ! 4 \<noteq> []
              then thenDo (slice (matches ! 4) 1 (int (length (matches ! 4)) - 1)) (\<lambda>t.
                     Inr (v\<lparr>title := t\<rparr>))
              else Inr v) (\<lambda>v.
      thenDo (if 5 < length matches \<and> matches ! 5 \<noteq> []
              then thenDo (slice (matches ! 5) 1 (int (length (matches ! 5)))) (\<lambda>k.
                     Inr (v\<lparr>key := TrimSpace k\<rparr>))
              else Inr v) (\<lambda>v.
      Inr v)))))"

definition parseLine :: "string \<Rightarrow> error + genValue" where
  "parseLine line =
     (let splitterIndex = Index line ''='' in
      thenDo (slice line 0 splitterIndex) (\<lambda>l.
      let left = TrimSpace l in
      thenDo (slice line (splitterIndex + 1) (int (length line))) (\<lambda>r.
      directive left (TrimSpace r))))"

text \<open>The loop: one value appended per line, in the order of the lines; a panic ends it.\<close>

fun parseLines :: "string list \<Rightarrow> genValue list \<Rightarrow> error + genValue list" where
  "parseLines [] genList = Inr genList"
| "parseLines (line # rest) genList =
     thenDo (parseLine line) (\<lambda>v. parseLines rest (genList @ [v]))"

definition parseFormat :: "string \<Rightarrow> error + genValue list" where
  "parseFormat format = parseLines (scanLines format) []"

section \<open>Keys and titles\<close>

definition formatKeyAndTitle :: "genValue \<Rightarrow> string \<times> string" where
  "formatKeyAndTitle v =
     (let key' = ToLower (title v);
          title' = ReplaceAll (Title (title v)) '' '' ''''
      in if 0 < length (key v)
         then (key v, ReplaceAll (Title (ReplaceAll (key v) ''-'' '' '')) '' '' '''')
         else (key', title'))"

section \<open>The generated structures\<close>

text \<open>
  The program builds the generated source with the jennifer library. The model keeps
  the two shapes of code it builds: \<open>Id(name).String().Tag(tag)\<close>, a struct field of type
  string (without \<open>Tag\<close> the tag is empty), and the statement
  \<open>answer.name = req.PostFormValue(key)\<close>.
\<close>

datatype code =
    StringField string "(string \<times> string) list"
  | AssignPostFormValue string string

definition jsonTag :: "string \<Rightarrow> (string \<times> string) list" where
  "jsonTag v = [(''json'', v)]"

record File =
  packageName :: string
  BasicPassword :: string
  BasicUser :: string
  FormContent :: "code list"
  FormAnswer :: "code list"
  ParsePost :: "code list"
  ResponderData :: "code list"

section \<open>The two passes of main\<close>

record Theme =
  background :: string
  titleColor :: string
  body :: string

text \<open>The local variables of \<open>main\<close> that the two loops over the values update.\<close>

record assembly =
  htmlList :: "string list"
  theme :: Theme
  setPassword :: string
  setUser :: string
  pageTitle :: string
  contentBits :: "code list"
  answer :: "code list"
  resParse :: "code list"

definition initial :: assembly where
  "initial = \<lparr>htmlList = [], theme = \<lparr>background = [], titleColor = [], body = []\<rparr>,
     setPassword = [], setUser = ''mouldy'', pageTitle = [],
     contentBits = [], answer = [], resParse = []\<rparr>"

text \<open>The first loop: the \<open>switch\<close> over the form-level elements.\<close>

definition metaStep :: "genValue \<Rightarrow> assembly \<Rightarrow> assembly" where
  \<open>metaStep input a =
     (if element input = ''form-title'' then
        a\<lparr>contentBits := contentBits a @ [StringField ''Title'' []],
          htmlList := htmlList a @ [''<h1>'' @ value input @ ''</h1>''],
          pageTitle := value input\<rparr>
      else if element input = ''form-desc'' then
        a\<lparr>contentBits := contentBits a @ [StringField ''Description'' []],
          htmlList := htmlList a @ [''<p>'' @ value input @ ''</p>'']\<rparr>
      else if element input = ''form-image'' then
        a\<lparr>contentBits := contentBits a @ [StringField ''Image'' []],
          htmlList := htmlList a @ [''<img src="'' @ value input @ ''">'']\<rparr>
      else if element input = ''form-password'' then
        a\<lparr>setPassword := value input,
          contentBits := contentBits a @ [StringField ''Password'' []]\<rparr>
      else if element input = ''form-user'' then
        a\<lparr>setUser := value input,
          contentBits := contentBits a @ [StringField ''User'' []]\<rparr>
      else if element input = ''form-bg'' then
        a\<lparr>theme := (theme a)\<lparr>background := value input\<rparr>\<rparr>
      else if element input = ''form-titlecolor'' then
        a\<lparr>theme := (theme a)\<lparr>titleColor := value input\<rparr>\<rparr>
      else if element input = ''form-fg'' then
        a\<lparr>theme := (theme a)\<lparr>body := value input\<rparr>\<rparr>
      else a)\<close>

fun metaPass :: "genValue list \<Rightarrow> assembly \<Rightarrow> assembly" where
  "metaPass [] a = a"
| "metaPass (input # rest) a = metaPass rest (metaStep input a)"

text \<open>
  The second loop. \<open>label\<close> is the format \<^verbatim>\<open><label for="%s">%s</label>\<close>;
  \<open>field\<close> is what every field case appends to \<open>answer\<close> and \<open>resParse\<close>.
\<close>

definition label :: "string \<Rightarrow> string \<Rightarrow> string" where
  \<open>label k t = ''<label for="'' @ k @ ''">'' @ t @ ''</label>''\<close>

definition field :: "string \<Rightarrow> string \<Rightarrow> assembly \<Rightarrow> assembly" where
  "field key' title' a =
     a\<lparr>answer := answer a @ [StringField title' (jsonTag key')],
       resParse := resParse a @ [AssignPostFormValue title' key']\<rparr>"

text \<open>
  The loop over the pairs of a number or range value: \<open>parts[1]\<close> panics for a pair
  without \<open>=\<close>.
\<close>

fun optionPairs :: "string list \<Rightarrow> string \<Rightarrow> error + string" where
  \<open>optionPairs [] options' = Inr options'\<close>
| \<open>optionPairs (optionPair # rest) options' =
     (let optionPair = TrimSpace optionPair;
          parts = Split optionPair ''=''
      in thenDo (elemAt parts 0) (\<lambda>p0.
         thenDo (elemAt parts 1) (\<lambda>p1.
         optionPairs rest (options' @ p0 @ ''="'' @ p1 @ ''" ''))))\<close>

text \<open>The loop over the options of a radio value.\<close>

fun radioOptions :: "string list \<Rightarrow> string \<Rightarrow> string list \<Rightarrow> string list" where
  \<open>radioOptions [] key' html = html\<close>
| \<open>radioOptions (val # rest) key' html =
     (let option = TrimSpace val;
          radioValue = ToLower option;
          radioId = key' @ ''-option-'' @ radioValue;
          html = html @ [''<span>''];
          el = ''<input type="radio" id="'' @ radioId @ ''" value="'' @ radioValue
                 @ ''" name="'' @ key' @ ''"/>'';
          html = html @ [el];
          html = html @ [label radioId option];
          html = html @ [''</span>'']
      in radioOptions rest key' html)\<close>

definition fieldStep :: "genValue \<Rightarrow> assembly \<Rightarrow> error + assembly" where
  \<open>fieldStep input a =
     (let required' = (if required input then ''required'' else '''') in
      if element input = ''textarea'' then
        (let (key', title') = formatKeyAndTitle input;
             html = htmlList a @ [''<div>''];
             html = html @ [label key' title'];
             el = ''<textarea '' @ required' @ '' placeholder="'' @ value input
                    @ ''" name="'' @ key' @ ''"></textarea>'';
             html = html @ [el];
             html = html @ [''</div>'']
         in Inr (field key' title' (a\<lparr>htmlList := html\<rparr>)))
      else if element input = ''input'' then
        (let (key', title') = formatKeyAndTitle input;
             html = htmlList a @ [''<div>''];
             html = html @ [label key' (title input)];
             el = ''<input type="text" '' @ required' @ '' placeholder="'' @ value input
                    @ ''" name="'' @ key' @ ''"/>'';
             html = html @ [el];
             html = html @ [''</div>'']
         in Inr (field key' title' (a\<lparr>htmlList := html\<rparr>)))
      else if element input = ''hidden'' then
        (let (key', title') = formatKeyAndTitle input;
             html = htmlList a @ [''<div>''];
             el = ''<input type="hidden" '' @ required' @ '' value="'' @ value input
                    @ ''" name="'' @ key' @ ''"/>'';
             html = html @ [el];
             html = html @ [''</div>'']
         in Inr (field key' title' (a\<lparr>htmlList := html\<rparr>)))
      else if element input = ''form-paragraph'' then
        Inr (a\<lparr>htmlList := htmlList a @ [''<p>'' @ value input @ ''</p>'']\<rparr>)
      else if element input = ''email'' then
        (let (key', title') = formatKeyAndTitle input;
             html = htmlList a @ [''<div>''];
             html = html @ [label key' (title input)];
             el = ''<input type="email" '' @ required'
                    @ '' placeholder="email@provider.tld" pattern="'' @ value input
                    @ ''", name="'' @ key' @ ''"/>'';
             html = html @ [el];
             html = html @ [''</div>'']
         in Inr (field key' title' (a\<lparr>htmlList := html\<rparr>)))
      else if element input = ''number'' then
        (let optionsList = Split (value input) '','';
             html = htmlList a @ [''<div>'']
         in thenDo (optionPairs optionsList []) (\<lambda>options'.
            let (key', title') = formatKeyAndTitle input;
                html = html @ [label key' title'];
                el = ''<input type="number" '' @ required' @ '' '' @ options'
                       @ '' name="'' @ key' @ ''"/>'';
                html = html @ [el];
                html = html @ [''</div>'']
            in Inr (field key' title' (a\<lparr>htmlList := html\<rparr>))))
      else if element input = ''range'' then
        (let optionsList = Split (value input) '','';
             html = htmlList a @ [''<div>'']
         in thenDo (optionPairs optionsList []) (\<lambda>options'.
            let (key', title') = formatKeyAndTitle input;
                html = html @ [label key' title'];
                el = ''<input type="range" '' @ required' @ '' '' @ options'
                       @ '' name="'' @ key' @ ''"/>'';
                html = html @ [el];
                html = html @ [''</div>'']
            in Inr (field key' title' (a\<lparr>htmlList := html\<rparr>))))
      else if element input = ''radio'' then
        (let options' = Split (value input) '','';
             (key', title') = formatKeyAndTitle input;
             html = htmlList a @ [''<div>''];
             html = html @ [''<span>'' @ title input @ ''</span>''];
             html = radioOptions options' key' html;
             html = html @ [''</div>'']
         in Inr (field key' title' (a\<lparr>htmlList := html\<rparr>)))
      else Inr a)\<close>

fun fieldPass :: "genValue list \<Rightarrow> assembly \<Rightarrow> error + assembly" where
  "fieldPass [] a = Inr a"
| "fieldPass (input # rest) a = thenDo (fieldStep input a) (\<lambda>a'. fieldPass rest a')"

text \<open>
  Lines 190 to 323 of \<open>main\<close>: the first loop, the opening tag of the form, the second
  loop, the submit control and the closing tag.
\<close>

definition formOpen :: string where
  \<open>formOpen = ''<form action="/" method="post">''\<close>

definition submitControl :: string where
  \<open>submitControl = ''<div><button type="submit">Submit</button></div>''\<close>

definition formClose :: string where
  "formClose = ''</form>''"

definition assemble :: "genValue list \<Rightarrow> error + assembly" where
  "assemble values =
     (let a = metaPass values initial;
          a = a\<lparr>htmlList := htmlList a @ [formOpen]\<rparr>
      in thenDo (fieldPass values a) (\<lambda>a.
         let a = a\<lparr>htmlList := htmlList a @ [submitControl]\<rparr>;
             a = a\<lparr>htmlList := htmlList a @ [formClose]\<rparr>
         in Inr a))"

definition formPackageName :: string where
  "formPackageName = ''myform''"

definition generated :: "assembly \<Rightarrow> File" where
  "generated a =
     \<lparr>packageName = formPackageName,
      BasicPassword = setPassword a,
      BasicUser = setUser a,
      FormContent = contentBits a,
      FormAnswer = answer a,
      ParsePost = resParse a,
      ResponderData = [StringField ''Data'' []]\<rparr>"

section \<open>Templates\<close>

subsection \<open>Parsing and executing\<close>

text \<open>
  The templates of the program hold text and actions of one shape, a field of the data
  between the delimiters, as in \<^verbatim>\<open>{{ .Title }}\<close>. \<open>Parse\<close> cuts a template at the
  delimiters; \<open>template.Must\<close> panics when it fails, which it does on an action that is
  not closed. An action of any other shape is outside the model, and \<open>Parse\<close> reports
  it as an error too.
\<close>

datatype node = TextNode string | FieldNode string

definition blank :: "char \<Rightarrow> bool" where
  "blank c \<longleftrightarrow> c \<in> {CHR 0x20, CHR 0x09, CHR 0x0D, CHR 0x0A}"

definition actionField :: "string \<Rightarrow> string option" where
  "actionField body' =
     (let b = dropWhile blank body';
          name = takeWhile (\<lambda>c. \<not> blank c) b;
          rest = dropWhile blank (dropWhile (\<lambda>c. \<not> blank c) b)
      in if rest = [] \<and> 2 \<le> length name \<and> hd name = CHR ''.'' \<and> list_all wordChar (tl name)
         then Some (tl name) else None)"

fun lex :: "bool \<Rightarrow> string \<Rightarrow> string \<Rightarrow> error + node list" where
  "lex False text [] = Inr [TextNode text]"
| "lex True action [] = Inl TemplateError"
| "lex False text (c # cs) =
     (if prefix ''{{'' (c # cs)
      then thenDo (lex True [] (drop 1 cs)) (\<lambda>nodes. Inr (TextNode text # nodes))
      else lex False (text @ [c]) cs)"
| "lex True action (c # cs) =
     (if prefix ''}}'' (c # cs)
      then (case actionField action of
              None \<Rightarrow> Inl TemplateError
            | Some f \<Rightarrow> thenDo (lex False [] (drop 1 cs)) (\<lambda>nodes. Inr (FieldNode f # nodes)))
      else lex True (action @ [c]) cs)"

definition Parse :: "string \<Rightarrow> error + node list" where
  "Parse text = lex False [] text"

text \<open>
  \<open>Execute\<close> writes to the buffer it is given: the text as it is and, for a field,
  what the data binds to its name. At a field the data does not have, the execution
  stops with an error, which \<open>main\<close> does not look at; what was written stays.
\<close>

fun Execute :: "node list \<Rightarrow> (string \<times> string) list \<Rightarrow> string \<Rightarrow> string" where
  "Execute [] data buf = buf"
| "Execute (TextNode text # nodes) data buf = Execute nodes data (buf @ text)"
| "Execute (FieldNode f # nodes) data buf =
     (case map_of data f of None \<Rightarrow> buf | Some v \<Rightarrow> Execute nodes data (buf @ v))"

subsection \<open>The escapers of html/template\<close>

text \<open>
  Package html/template escapes the value of an action for the place the action
  stands at. In the built-in stylesheet the three actions stand for a CSS value, and the
  value, of type \<open>template.HTML\<close>, goes through the CSS value filter: the value is
  decoded, and replaced by \<open>ZgotmplZ\<close> unless it is plainly harmless. In the page
  template \<open>.Title\<close>, a string, stands within the title element and its special
  characters are replaced; \<open>.Content\<close>, of type \<open>template.HTML\<close>, stands in the body
  and is written as it is. The package copies the text of these templates unchanged
  (it would drop a comment, of which they have none).
\<close>

definition hexDigits :: string where
  "hexDigits = ''0123456789abcdefABCDEF''"

definition isHex :: "char \<Rightarrow> bool" where
  "isHex c \<longleftrightarrow> c \<in> set hexDigits"

definition hexValue :: "char \<Rightarrow> nat" where
  "hexValue c =
     (case map_of (zip hexDigits [0, 1, 2, 3, 4, 5, 6, 7, 8, 9, 10, 11, 12, 13, 14, 15,
                                   10, 11, 12, 13, 14, 15]) c of
        Some n \<Rightarrow> n | None \<Rightarrow> 0)"

definition hexDecode :: "string \<Rightarrow> nat" where
  "hexDecode s = foldl (\<lambda>n c. n * 16 + hexValue c) 0 s"

text \<open>\<open>utf8.EncodeRune\<close>, and the width of the first rune as \<open>utf8.DecodeRune\<close> finds it.\<close>

definition EncodeRune :: "nat \<Rightarrow> string" where
  "EncodeRune r =
     (if r \<le> 0x7F then [char_of r]
      else if r \<le> 0x7FF then [char_of (0xC0 + r div 64), char_of (0x80 + r mod 64)]
      else if 0x10FFFF < r \<or> (0xD800 \<le> r \<and> r \<le> 0xDFFF) then [CHR 0xEF, CHR 0xBF, CHR 0xBD]
      else if r \<le> 0xFFFF
        then [char_of (0xE0 + r div 4096), char_of (0x80 + r div 64 mod 64),
              char_of (0x80 + r mod 64)]
      else [char_of (0xF0 + r div 262144), char_of (0x80 + r div 4096 mod 64),
            char_of (0x80 + r div 64 mod 64), char_of (0x80 + r mod 64)])"

definition between :: "nat \<Rightarrow> nat \<Rightarrow> char \<Rightarrow> bool" where
  "between lo hi c \<longleftrightarrow> lo \<le> (of_char c :: nat) \<and> (of_char c :: nat) \<le> hi"

fun runeLen :: "string \<Rightarrow> nat" where
  "runeLen (a # b # c # d # _) =
     (if between 0xC2 0xDF a \<and> between 0x80 0xBF b then 2
      else if (a = CHR 0xE0 \<and> between 0xA0 0xBF b \<or> between 0xE1 0xEC a \<and> between 0x80 0xBF b
               \<or> a = CHR 0xED \<and> between 0x80 0x9F b \<or> between 0xEE 0xEF a \<and> between 0x80 0xBF b)
              \<and> between 0x80 0xBF c then 3
      else if (a = CHR 0xF0 \<and> between 0x90 0xBF b \<or> between 0xF1 0xF3 a \<and> between 0x80 0xBF b
               \<or> a = CHR 0xF4 \<and> between 0x80 0x8F b)
              \<and> between 0x80 0xBF c \<and> between 0x80 0xBF d then 4
      else 1)"
| "runeLen [a, b, c] =
     (if between 0xC2 0xDF a \<and> between 0x80 0xBF b then 2
      else if (a = CHR 0xE0 \<and> between 0xA0 0xBF b \<or> between 0xE1 0xEC a \<and> between 0x80 0xBF b
               \<or> a = CHR 0xED \<and> between 0x80 0x9F b \<or> between 0xEE 0xEF a \<and> between 0x80 0xBF b)
              \<and> between 0x80 0xBF c then 3
      else 1)"
| "runeLen [a, b] = (if between 0xC2 0xDF a \<and> between 0x80 0xBF b then 2 else 1)"
| "runeLen [a] = 1"
| "runeLen [] = 0"

text \<open>\<open>skipCSSSpace\<close> and \<open>decodeCSS\<close>: the escapes of CSS, a backslash before hexadecimal
  digits or before one other character, are replaced by what they stand for.\<close>

definition skipCSSSpace :: "string \<Rightarrow> string" where
  "skipCSSSpace c =
     (case c of
        [] \<Rightarrow> c
      | x # xs \<Rightarrow>
          if x \<in> {CHR 0x09, CHR 0x0A, CHR 0x0C, CHR 0x20} then xs
          else if x = CHR 0x0D then (case xs of y # ys \<Rightarrow> if y = CHR 0x0A then ys else xs | [] \<Rightarrow> xs)
          else c)"

definition backslash :: char where
  "backslash = CHR 0x5C"

fun decodeFrom :: "nat \<Rightarrow> string \<Rightarrow> string" where
  "decodeFrom 0 s = []"
| "decodeFrom (Suc fuel) s =
     (let text = takeWhile (\<lambda>c. c \<noteq> backslash) s;
          s = dropWhile (\<lambda>c. c \<noteq> backslash) s
      in if length s < 2 then text
         else if isHex (s ! 1) then
           (let j = 1 + length (takeWhile isHex (take 6 (drop 1 s)));
                r = hexDecode (take (j - 1) (drop 1 s));
                (r, j) = (if 0x10FFFF < r then (r div 16, j - 1) else (r, j))
            in text @ EncodeRune r @ decodeFrom fuel (skipCSSSpace (drop j s)))
         else
           (let n = runeLen (drop 1 s)
            in text @ take n (drop 1 s) @ decodeFrom fuel (drop (1 + n) s)))"

definition decodeCSS :: "string \<Rightarrow> string" where
  "decodeCSS s = (if backslash \<notin> set s then s else decodeFrom (length s) s)"

definition filterFailsafe :: string where
  "filterFailsafe = ''ZgotmplZ''"

definition isCSSNmchar :: "char \<Rightarrow> bool" where
  "isCSSNmchar c \<longleftrightarrow>
     c \<in> set lowerLetters \<or> c \<in> set upperLetters \<or> c \<in> set digits \<or> c = CHR ''-'' \<or> c = CHR ''_''"

fun contains :: "string \<Rightarrow> string \<Rightarrow> bool" where
  "contains [] sub = (sub = [])"
| "contains (c # cs) sub = (prefix sub (c # cs) \<or> contains cs sub)"

definition cssUnsafe :: string where
  \<open>cssUnsafe = [CHR 0x00, CHR 0x22, CHR 0x27, CHR 0x5C] @ ''()/;@[]`{}<>''\<close>

definition cssValueFilter :: "string \<Rightarrow> string" where
  "cssValueFilter s =
     (let b = decodeCSS s;
          id' = ToLower (filter (\<lambda>c. c \<noteq> CHR ''-'' \<and> isCSSNmchar c) b)
      in if (\<exists>c \<in> set b. c \<in> set cssUnsafe) \<or> contains b ''--''
            \<or> contains id' ''expression'' \<or> contains id' ''mozbinding''
         then filterFailsafe else b)"

text \<open>The escaper within the title element: the replacement table of HTML.\<close>

definition htmlReplacement :: "char \<Rightarrow> string" where
  \<open>htmlReplacement c =
     (if c = CHR 0x00 then [CHR 0xEF, CHR 0xBF, CHR 0xBD]
      else if c = CHR 0x22 then ''&#34;''
      else if c = CHR ''&'' then ''&amp;''
      else if c = CHR 0x27 then ''&#39;''
      else if c = CHR ''+'' then ''&#43;''
      else if c = CHR ''<'' then ''&lt;''
      else if c = CHR ''>'' then ''&gt;''
      else [c])\<close>

definition rcdataEscaper :: "string \<Rightarrow> string" where
  "rcdataEscaper s = concat (map htmlReplacement s)"

subsection \<open>The templates of the program\<close>

record StyleData =
  Background :: string
  TitleColor :: string
  Body :: string

record TemplateData =
  dataContent :: string
  dataTitle :: string

definition indent :: "nat \<Rightarrow> string \<Rightarrow> string" where
  "indent n s = replicate n TAB @ s"

definition stylesheetTemplate :: string where
  "stylesheetTemplate = concat (map (\<lambda>l. l @ [LF])
     [''<style>'',
      indent 2 ''html {'',
      indent 3 ''background: {{ .Background }};'',
      indent 3 ''color: {{ .Body }};'',
      indent 3 ''padding-left: 2rem;'',
      indent 3 ''padding-right: 2rem;'',
      indent 3 ''padding-top: 1rem;'',
      indent 2 ''}'',
      indent 2 ''h1 {'',
      indent 3 ''color: {{ .TitleColor }};'',
      indent 2 ''}'',
      indent 2 ''* {'',
      indent 3 ''padding: 0;'',
      indent 3 ''margin-bottom: 0.5rem;'',
      indent 2 ''}'',
      indent 2 ''div {'',
      indent 3 ''display: grid;'',
      indent 3 ''max-width: 600px;'',
      indent 3 ''align-items: center;'',
      indent 2 ''}'',
      ''</style>''])"

definition htmlTemplate :: string where
  "htmlTemplate = Join
     [''<!DOCTYPE html>'',
      ''<html>'',
      indent 1 ''<head>'',
      indent 2 ''<title>{{ .Title }}</title>'',
      indent 2 ''%SENTINEL%'',
      indent 1 ''</head>'',
      indent 1 ''<body>'',
      indent 1 ''{{ .Content }}'',
      indent 1 ''</body>'',
      ''</html>''] [LF]"

definition responseTemplate :: string where
  "responseTemplate = Join
     [''<!DOCTYPE html>'',
      ''<html>'',
      ''    <head>'',
      ''    <title>Form submitted</title>'',
      indent 2 ''%SENTINEL%'',
      ''    <body>'',
      indent 3 ''<h1>Response successful</h1>'',
      indent 3 ''<p>Your response: </p>'',
      indent 3 ''<pre>'',
      indent 3 ''<code>'',
      ''{{ .Data }}'',
      indent 3 ''</code>'',
      indent 3 ''</pre>'',
      indent 3 (''<p><b>Bookmark this page</b> as a receipt or if you want to review ''
                @ ''what you responded some time in the future</p>''),
      indent 1 ''</body>'',
      ''</html>''] [LF]"

definition styleBinding :: "StyleData \<Rightarrow> (string \<times> string) list" where
  "styleBinding d =
     [(''Background'', cssValueFilter (Background d)),
      (''TitleColor'', cssValueFilter (TitleColor d)),
      (''Body'', cssValueFilter (Body d))]"

definition pageBinding :: "TemplateData \<Rightarrow> (string \<times> string) list" where
  "pageBinding d = [(''Content'', dataContent d), (''Title'', rcdataEscaper (dataTitle d))]"

section \<open>The run\<close>

text \<open>
  What a run of \<open>main\<close> depends on: the values of the two flags after \<open>flag.Parse\<close>,
  and the file system, which answers \<open>os.ReadFile\<close> with the text of an error or with
  the contents, and \<open>os.MkdirAll\<close> and \<open>os.WriteFile\<close> with the text of an error if
  they fail.
\<close>

record world =
  formatFp :: string
  stylesheetFp :: string
  readFile :: "string \<Rightarrow> string + string"
  mkdirAll :: "string \<Rightarrow> string option"
  writeFile :: "string \<Rightarrow> string option"

text \<open>
  What a run does, in order, and how it ends. The text of the generated source is
  jennifer's rendering of the \<open>File\<close>, which the model does not produce: printing and
  writing it are events that carry the \<open>File\<close>.
\<close>

datatype event =
    Println string
  | ReadFile string
  | MkdirAll string
  | WriteFile string string
  | PrintGoString File
  | WriteGoString string File

datatype ending = Exit int | Panic error | Return

definition report :: "string \<Rightarrow> string option \<Rightarrow> event list" where
  "report what err = (case err of None \<Rightarrow> [] | Some e \<Rightarrow> [Println (what @ e)])"

text \<open>Lines 360 to 369: a colour of the theme is copied when it is not empty.\<close>

definition styleDataOf :: "Theme \<Rightarrow> StyleData" where
  "styleDataOf t =
     (let styleData = \<lparr>Background = [], TitleColor = [], Body = []\<rparr>;
          styleData = (if background t \<noteq> [] then styleData\<lparr>Background := background t\<rparr> else styleData);
          styleData = (if body t \<noteq> [] then styleData\<lparr>Body := body t\<rparr> else styleData);
          styleData = (if titleColor t \<noteq> [] then styleData\<lparr>TitleColor := titleColor t\<rparr> else styleData)
      in styleData)"

text \<open>
  Lines 373 to 380: the stylesheet template is the built-in one, or the contents of the
  file of the flag between style tags. (Of such a file the model renders the text and
  the fields as it does for the built-in template, which is not all html/template does
  with arbitrary text.)
\<close>

definition loadStylesheet :: "world \<Rightarrow> event list \<times> string" where
  "loadStylesheet w =
     (if stylesheetFp w \<noteq> [] then
        (case readFile w (stylesheetFp w) of
           Inr b \<Rightarrow> ([ReadFile (stylesheetFp w)], ''<style>'' @ b @ ''</style>'')
         | Inl err \<Rightarrow>
             ([ReadFile (stylesheetFp w), Println (''err reading stylesheet '' @ err)],
              stylesheetTemplate))
      else ([], stylesheetTemplate))"

text \<open>
  Lines 383 to 393. The stylesheet is rendered into a new buffer. The page is rendered
  into the same buffer, which still holds the stylesheet.
\<close>

definition renderStylesheet :: "string \<Rightarrow> StyleData \<Rightarrow> error + string" where
  "renderStylesheet template styleData =
     thenDo (Parse template) (\<lambda>t. Inr (Execute t (styleBinding styleData) []))"

definition renderPage :: "string \<Rightarrow> TemplateData \<Rightarrow> error + string" where
  "renderPage buf data =
     thenDo (Parse (ReplaceAll htmlTemplate ''%SENTINEL%'' buf)) (\<lambda>t.
       Inr (Execute t (pageBinding data) buf))"

text \<open>Lines 182 to 186: the format is the contents of the file, or empty when it cannot be read.\<close>

definition loadFormat :: "world \<Rightarrow> event list \<times> string" where
  "loadFormat w =
     (case readFile w (formatFp w) of
        Inl err \<Rightarrow>
          ([ReadFile (formatFp w), Println (''issue when reading format file '' @ err)], [])
      | Inr b \<Rightarrow> ([ReadFile (formatFp w)], b))"

text \<open>Lines 360 to 385: the stylesheet as rendered, the contents of the buffer after it.\<close>

definition stylesheetFor :: "world \<Rightarrow> assembly \<Rightarrow> error + string" where
  "stylesheetFor w a = renderStylesheet (snd (loadStylesheet w)) (styleDataOf (theme a))"

definition main :: "world \<Rightarrow> event list \<times> ending" where
  "main w =
     (if formatFp w = [] then
        ([Println ''must pass --input <file containing form format>''], Exit 0)
      else
        let (ev, format) = loadFormat w
        in case thenDo (parseFormat format) assemble of
             Inl e \<Rightarrow> (ev, Panic e)
           | Inr a \<Rightarrow>
               let f = generated a;
                   ev = ev @ [PrintGoString f];
                   ev = ev @ [MkdirAll formPackageName]
                          @ report ''err mkdirall '' (mkdirAll w formPackageName);
                   path = formPackageName @ ''/generated-form-model.go'';
                   ev = ev @ [WriteGoString path f] @ report [] (writeFile w path);
                   data = \<lparr>dataContent = Join (htmlList a) [LF], dataTitle = pageTitle a\<rparr>;
                   ev = ev @ fst (loadStylesheet w)
               in case stylesheetFor w a of
                    Inl e \<Rightarrow> (ev, Panic e)
                  | Inr buf \<Rightarrow>
                      (case renderPage buf data of
                         Inl e \<Rightarrow> (ev, Panic e)
                       | Inr page \<Rightarrow>
                           (ev @ [WriteFile ''index-template.html'' page]
                               @ report [] (writeFile w ''index-template.html'')
                               @ [WriteFile ''response-template.html''
                                    (ReplaceAll responseTemplate ''%SENTINEL%'' buf)]
                               @ report [] (writeFile w ''response-template.html''),
                            Return)))"

section \<open>Evaluation\<close>

text \<open>Rules that let the simplifier run the definitions on a given text.\<close>

lemma list_update_numeral: "(x # xs)[numeral k := y] = x # xs[pred_numeral k := y]"
  by (simp add: numeral_eq_Suc)

lemma replicate_numeral: "replicate (numeral k) x = x # replicate (pred_numeral k) x"
  by (simp add: numeral_eq_Suc)

lemmas class_eval = digits_def upperLetters_def lowerLetters_def wordChar_def nonSpace_def
  anyChar_def isSeparator_def toLowerByte_def toTitleByte_def LF_def CR_def TAB_def

lemmas strings_eval = TrimSpace_def TrimLeft_def TrimRight_def runeWidth_def spaceRunes_def
  ToLower_def Title_def Split_def

lemmas regexp_eval = FindStringSubmatch_def pattern_def list_update_numeral replicate_numeral

lemmas parse_eval = parseFormat_def scanLines_def dropCR_def MaxScanTokenSize_def
  parseLine_def directive_def thenDo_def slice_def elemAt_def zeroValue_def

lemmas assemble_eval = assemble_def initial_def metaStep_def fieldStep_def field_def label_def
  formatKeyAndTitle_def jsonTag_def formOpen_def submitControl_def formClose_def

section \<open>Lines the parser cannot read\<close>

text \<open>
  Claim C1 says that the line parser skips a blank line, and a line that has neither
  the shape of a form-level element nor the shape \<open>element[title]\<close>, and goes on to the
  next line. The code does not: a blank line between two directives ends
  \<open>parseFormat\<close> with the panic of the slice \<open>line[0:-1]\<close>, and a line whose left side
  matches neither shape ends it with the panic of \<open>matches[1]\<close> on \<open>nil\<close>.
\<close>

theorem parseFormat_panics_on_blank_or_unmatched_line:
  "parseFormat (''input[Name] = First and last name'' @ [LF, LF] @ ''radio[Size] = Small, Large'')
     = Inl SliceBoundsOutOfRange
   \<and> parseFormat ''please fill in = now'' = Inl IndexOutOfRange"
  by (simp add: parse_eval regexp_eval strings_eval class_eval)

section \<open>The required flag of a radio element\<close>

text \<open>
  Claim C3 says that the fragment of every field element whose required flag is set
  holds the required marker. For a radio element the code never writes it: the
  directive \<open>!radio[Size] = Small, Large\<close> is parsed with the flag set, and none of the
  fragments of its two options holds the marker.
\<close>

theorem radio_fragments_lack_required:
  \<open>parseFormat ''!radio[Size] = Small, Large''
     = Inr [\<lparr>element = ''radio'', title = ''Size'', value = ''Small, Large'', key = [],
             required = True, options = []\<rparr>]
   \<and> map_sum id htmlList (thenDo (parseFormat ''!radio[Size] = Small, Large'') assemble)
     = Inr [formOpen, ''<div>'', ''<span>Size</span>'',
            ''<span>'',
            ''<input type="radio" id="size-option-small" value="small" name="size"/>'',
            ''<label for="size-option-small">Small</label>'',
            ''</span>'',
            ''<span>'',
            ''<input type="radio" id="size-option-large" value="large" name="size"/>'',
            ''<label for="size-option-large">Large</label>'',
            ''</span>'',
            ''</div>'', submitControl, formClose]\<close>
  by (simp add: parse_eval regexp_eval strings_eval class_eval assemble_eval)

section \<open>A pair without an equals sign\<close>

text \<open>
  Claim C4 says that a malformed pair in the value of a number or range element is
  written out as it is and never makes the compiler fail. A pair without \<open>=\<close> does:
  for \<open>number[Amount] = 5\<close> the second loop panics at \<open>parts[1]\<close>.
\<close>

theorem number_pair_without_equals_panics:
  "thenDo (parseFormat ''number[Amount] = 5'') assemble = Inl IndexOutOfRange"
  by (simp add: parse_eval regexp_eval strings_eval class_eval assemble_eval)

section \<open>Cutting a line\<close>

text \<open>
  \<open>whiteSpace s\<close>: the text \<open>s\<close> is white space and nothing else. \<open>trimmedFrom s t\<close>:
  \<open>t\<close> is \<open>s\<close> without white space before and after it, and neither starts nor ends
  with white space.
\<close>

definition whiteSpace :: "string \<Rightarrow> bool" where
  "whiteSpace s \<longleftrightarrow> (\<exists>qs. set qs \<subseteq> set spaceRunes \<and> s = concat qs)"

definition trimmedFrom :: "string \<Rightarrow> string \<Rightarrow> bool" where
  "trimmedFrom s t \<longleftrightarrow>
     (\<exists>a b. s = a @ t @ b \<and> whiteSpace a \<and> whiteSpace b)
     \<and> (\<forall>q \<in> set spaceRunes. \<not> prefix q t \<and> \<not> suffix q t)"

lemma Index_byte:
  "Index s [c] = (if c \<in> set s then int (length (takeWhile (\<lambda>x. x \<noteq> c) s)) else - 1)"
  by (induction s) auto

lemma runeWidth_zero:
  assumes "[] \<notin> set runes"
  shows "runeWidth runes s = 0 \<longleftrightarrow> (\<forall>q \<in> set runes. \<not> prefix q s)"
proof (cases "filter (\<lambda>q. prefix q s) runes")
  case Nil
  then show ?thesis by (simp add: runeWidth_def filter_empty_conv)
next
  case (Cons q rest)
  then have "q \<in> set (filter (\<lambda>q. prefix q s) runes)" by simp
  then have q: "q \<in> set runes" "prefix q s" by auto
  then have "q \<noteq> []" using assms by auto
  then show ?thesis using q Cons by (auto simp: runeWidth_def)
qed

lemma runeWidth_pos:
  assumes "runeWidth runes s \<noteq> 0"
  shows "\<exists>q \<in> set runes. prefix q s \<and> length q = runeWidth runes s"
proof -
  obtain q rest where f: "filter (\<lambda>q. prefix q s) runes = q # rest" and l: "runeWidth runes s = length q"
    using assms by (auto simp: runeWidth_def split: list.splits)
  have "q \<in> set (filter (\<lambda>q. prefix q s) runes)" by (simp add: f)
  then show ?thesis using l by auto
qed

lemma stripLeft_no_prefix:
  "[] \<notin> set runes \<Longrightarrow> q \<in> set runes \<Longrightarrow> \<not> prefix q (stripLeft runes s)"
proof (induction runes s rule: stripLeft.induct)
  case (1 runes)
  then show ?case by auto
next
  case (2 runes c cs)
  show ?case
  proof (cases "runeWidth runes (c # cs) = 0")
    case True
    then show ?thesis using 2 runeWidth_zero[of runes "c # cs"] by simp
  next
    case False
    then show ?thesis using 2 by simp
  qed
qed

lemma stripLeft_decomp:
  "\<exists>qs. set qs \<subseteq> set runes \<and> s = concat qs @ stripLeft runes s"
proof (induction runes s rule: stripLeft.induct)
  case (1 runes)
  show ?case by (rule exI[of _ "[]"]) simp
next
  case (2 runes c cs)
  show ?case
  proof (cases "runeWidth runes (c # cs) = 0")
    case True
    show ?thesis by (rule exI[of _ "[]"]) (simp add: True)
  next
    case False
    then obtain q where q: "q \<in> set runes" "prefix q (c # cs)" "length q = runeWidth runes (c # cs)"
      using runeWidth_pos by blast
    from 2 False obtain qs where qs: "set qs \<subseteq> set runes"
      "drop (runeWidth runes (c # cs) - 1) cs = concat qs @ stripLeft runes (drop (runeWidth runes (c # cs) - 1) cs)"
      by auto
    have "q \<noteq> []" using q False by auto
    then have d: "drop (length q) (c # cs) = drop (length q - 1) cs"
      by (cases q) auto
    have "c # cs = q @ drop (length q) (c # cs)"
      using q(2) by (metis append_eq_conv_conj prefixE)
    then have "c # cs = concat (q # qs) @ stripLeft runes (c # cs)"
      using qs(2) d q(3) False by simp
    moreover have "set (q # qs) \<subseteq> set runes" using q qs by simp
    ultimately show ?thesis by blast
  qed
qed

lemma whiteSpace_rev_runes:
  assumes "set qs \<subseteq> set (map rev spaceRunes)"
  shows "whiteSpace (rev (concat qs))"
proof -
  have "rev (concat qs) = concat (map rev (rev qs))" by (simp add: rev_concat)
  moreover have "set (map rev (rev qs)) \<subseteq> set spaceRunes" using assms by auto
  ultimately show ?thesis unfolding whiteSpace_def by blast
qed

lemma spaceRunes_nonempty: "[] \<notin> set spaceRunes" "[] \<notin> set (map rev spaceRunes)"
  by (simp_all add: spaceRunes_def)

lemma TrimLeft_decomp: "\<exists>a. whiteSpace a \<and> s = a @ TrimLeft s"
  using stripLeft_decomp[of spaceRunes s] unfolding TrimLeft_def whiteSpace_def by blast

lemma TrimRight_decomp: "\<exists>b. whiteSpace b \<and> s = TrimRight s @ b"
proof -
  obtain qs where qs: "set qs \<subseteq> set (map rev spaceRunes)"
    "rev s = concat qs @ stripLeft (map rev spaceRunes) (rev s)"
    using stripLeft_decomp by blast
  have "s = rev (rev s)" by simp
  also have "\<dots> = TrimRight s @ rev (concat qs)"
    unfolding TrimRight_def by (subst qs(2)) simp
  finally show ?thesis using whiteSpace_rev_runes[OF qs(1)] by blast
qed

lemma TrimLeft_no_prefix: "q \<in> set spaceRunes \<Longrightarrow> \<not> prefix q (TrimLeft s)"
  unfolding TrimLeft_def by (rule stripLeft_no_prefix[OF spaceRunes_nonempty(1)])

lemma TrimRight_no_suffix: "q \<in> set spaceRunes \<Longrightarrow> \<not> suffix q (TrimRight s)"
proof -
  assume q: "q \<in> set spaceRunes"
  then have "rev q \<in> set (map rev spaceRunes)" by simp
  from stripLeft_no_prefix[OF spaceRunes_nonempty(2) this, of "rev s"]
  show ?thesis unfolding TrimRight_def by (simp add: suffix_to_prefix)
qed

lemma TrimSpace_trimmedFrom: "trimmedFrom s (TrimSpace s)"
proof -
  obtain a where a: "whiteSpace a" "s = a @ TrimLeft s" using TrimLeft_decomp by blast
  obtain b where b: "whiteSpace b" "TrimLeft s = TrimRight (TrimLeft s) @ b"
    using TrimRight_decomp by blast
  have 1: "s = a @ TrimSpace s @ b" unfolding TrimSpace_def using a(2) b(2) by simp
  have 2: "\<not> prefix q (TrimSpace s)" if "q \<in> set spaceRunes" for q
  proof
    assume "prefix q (TrimSpace s)"
    then have "prefix q (TrimLeft s)"
      unfolding TrimSpace_def using b(2) by (metis prefix_append)
    then show False using TrimLeft_no_prefix that by blast
  qed
  have 3: "\<not> suffix q (TrimSpace s)" if "q \<in> set spaceRunes" for q
    unfolding TrimSpace_def using TrimRight_no_suffix that by blast
  show ?thesis unfolding trimmedFrom_def using 1 2 3 a(1) b(1) by blast
qed

text \<open>
  Claim C7: a line with an \<open>=\<close> is cut at the first one. The left side \<open>l\<close> has no
  \<open>=\<close>, the right side \<open>r\<close> is all that follows, and the rest of the loop body,
  \<open>directive\<close>, gets the two sides trimmed of leading and trailing white space.
\<close>

theorem parseLine_cuts_at_first_equals:
  assumes "CHR ''='' \<in> set line"
  shows "\<exists>l r. line = l @ CHR ''='' # r \<and> CHR ''='' \<notin> set l
           \<and> parseLine line = directive (TrimSpace l) (TrimSpace r)
           \<and> trimmedFrom l (TrimSpace l) \<and> trimmedFrom r (TrimSpace r)"
proof -
  define l where "l = takeWhile (\<lambda>x. x \<noteq> CHR ''='') line"
  define r where "r = tl (dropWhile (\<lambda>x. x \<noteq> CHR ''='') line)"
  have d: "dropWhile (\<lambda>x. x \<noteq> CHR ''='') line = CHR ''='' # r"
  proof -
    have ne: "dropWhile (\<lambda>x. x \<noteq> CHR ''='') line \<noteq> []"
      using assms by (simp add: dropWhile_eq_Nil_conv)
    then have "hd (dropWhile (\<lambda>x. x \<noteq> CHR ''='') line) = CHR ''=''"
      using hd_dropWhile[of "\<lambda>x. x \<noteq> CHR ''=''" line] by simp
    then show ?thesis using ne unfolding r_def
      by (cases "dropWhile (\<lambda>x. x \<noteq> CHR ''='') line") auto
  qed
  have line: "line = l @ CHR ''='' # r"
    unfolding l_def using d takeWhile_dropWhile_id[of "\<lambda>x. x \<noteq> CHR ''=''" line] by simp
  have nl: "CHR ''='' \<notin> set l"
    unfolding l_def by (auto dest: set_takeWhileD)
  have i: "Index line ''='' = int (length l)"
    using assms by (simp add: Index_byte l_def)
  have s1: "slice line 0 (int (length l)) = Inr l"
    by (simp add: slice_def line)
  have s2: "slice line (int (length l) + 1) (int (length line)) = Inr r"
    by (simp add: slice_def line nat_add_distrib)
  have "parseLine line = directive (TrimSpace l) (TrimSpace r)"
    unfolding parseLine_def by (simp add: i s1 s2 thenDo_def Let_def)
  then show ?thesis using line nl TrimSpace_trimmedFrom by blast
qed

theorem parseLine_cuts_at_first_equals_witness:
  "CHR ''='' \<in> set ''input[Name]  =  First name '' \<and>
   (\<exists>l r. ''input[Name]  =  First name '' = l @ CHR ''='' # r \<and> CHR ''='' \<notin> set l
           \<and> parseLine ''input[Name]  =  First name '' = directive (TrimSpace l) (TrimSpace r)
           \<and> trimmedFrom l (TrimSpace l) \<and> trimmedFrom r (TrimSpace r))"
proof -
  have h: "CHR ''='' \<in> set ''input[Name]  =  First name ''" by simp
  show ?thesis by (rule conjI[OF h parseLine_cuts_at_first_equals[OF h]])
qed

section \<open>Keys and titles: the derivation\<close>



lemma titleFrom_length: "length (titleFrom p s) = length s"
  by (induction s arbitrary: p) auto

lemma titleFrom_nth:
  "i < length s \<Longrightarrow>
   titleFrom p s ! i =
     (if isSeparator (if i = 0 then p else s ! (i - 1)) then toTitleByte (s ! i) else s ! i)"
proof (induction s arbitrary: p i)
  case Nil
  then show ?case by simp
next
  case (Cons c cs)
  show ?case
  proof (cases i)
    case 0
    then show ?thesis by simp
  next
    case (Suc j)
    then have "j < length cs" using Cons.prems by simp
    from Cons.IH[OF this, of c] show ?thesis using Suc by (cases j) auto
  qed
qed

lemma Title_nth:
  "i < length s \<Longrightarrow>
   Title s ! i =
     (if isSeparator (if i = 0 then CHR '' '' else s ! (i - 1)) then toTitleByte (s ! i)
      else s ! i)"
  unfolding Title_def by (rule titleFrom_nth)




section \<open>No input file\<close>

text \<open>A world where no \<open>--input\<close> was passed and every file can be read.\<close>

definition noInput :: world where
  "noInput = \<lparr>formatFp = [], stylesheetFp = [],
     readFile = (\<lambda>path. Inr ''input[Name] = First and last name''),
     mkdirAll = (\<lambda>path. None), writeFile = (\<lambda>path. None)\<rparr>"

text \<open>
  Claim C8 says that without an input file the process prints a message and ends with
  a non-zero exit status before it does anything else. It prints the message and does
  nothing else, no file is read, but the status it exits with is \<open>0\<close>.
\<close>

theorem main_without_input:
  "formatFp w = [] \<Longrightarrow>
   main w = ([Println ''must pass --input <file containing form format>''], Exit 0)"
  by (simp add: main_def)

theorem main_without_input_witness:
  "main noInput = ([Println ''must pass --input <file containing form format>''], Exit 0)"
  using main_without_input[of noInput] by (simp add: noInput_def)

text \<open>Claim C8 as stated fails: the exit status is zero.\<close>

theorem main_without_input_exit_status: "formatFp noInput = [] \<and> snd (main noInput) = Exit 0"
  by (simp add: main_def noInput_def)

section \<open>What the two passes build\<close>

text \<open>
  The field kinds are the elements for which the second loop appends a field to the
  answer structure. \<open>fragments v\<close> is what the second loop appends to the HTML list
  for the value \<open>v\<close> and \<open>metaFragments v\<close> what the first loop appends for it;
  \<open>answerField v\<close> and \<open>extraction v\<close> are the field and the statement of \<open>v\<close>.
\<close>

definition isFieldKind :: "genValue \<Rightarrow> bool" where
  "isFieldKind v \<longleftrightarrow>
     element v \<in> {''textarea'', ''input'', ''hidden'', ''email'', ''number'', ''range'', ''radio''}"

definition fragments :: "genValue \<Rightarrow> string list" where
  "fragments v = (case fieldStep v initial of Inl e \<Rightarrow> [] | Inr a \<Rightarrow> htmlList a)"

definition metaFragments :: "genValue \<Rightarrow> string list" where
  "metaFragments v = htmlList (metaStep v initial)"

definition answerField :: "genValue \<Rightarrow> code" where
  "answerField v = StringField (snd (formatKeyAndTitle v)) (jsonTag (fst (formatKeyAndTitle v)))"

definition extraction :: "genValue \<Rightarrow> code" where
  "extraction v = AssignPostFormValue (snd (formatKeyAndTitle v)) (fst (formatKeyAndTitle v))"

text \<open>One step of either loop appends, and leaves what was there before as it was.\<close>

lemma radioOptions_append: "radioOptions opts k (h1 @ h2) = h1 @ radioOptions opts k h2"
  by (induction opts arbitrary: h2) (simp_all add: Let_def)

lemma radioOptions_from_empty: "radioOptions opts k html = html @ radioOptions opts k []"
  using radioOptions_append[of opts k html "[]"] by simp

lemma fieldStep_html:
  assumes "fieldStep v a = Inr a'"
  shows "htmlList a' = htmlList a @ fragments v"
proof (cases "optionPairs (Split (value v) '','') []")
  case (Inl e)
  then show ?thesis
    using assms radioOptions_from_empty[of _ _ "htmlList a @ _"] radioOptions_from_empty[of _ _ "[_, _]"]
    unfolding fieldStep_def fragments_def
    by (auto simp: Let_def thenDo_def field_def initial_def split: prod.splits if_splits)
next
  case (Inr opts)
  then show ?thesis
    using assms radioOptions_from_empty[of _ _ "htmlList a @ _"] radioOptions_from_empty[of _ _ "[_, _]"]
    unfolding fieldStep_def fragments_def
    by (auto simp: Let_def thenDo_def field_def initial_def split: prod.splits if_splits)
qed

lemma fieldStep_answer:
  assumes "fieldStep v a = Inr a'"
  shows "answer a' = answer a @ (if isFieldKind v then [answerField v] else [])
       \<and> resParse a' = resParse a @ (if isFieldKind v then [extraction v] else [])"
  using assms unfolding fieldStep_def isFieldKind_def answerField_def extraction_def
  by (auto simp: Let_def thenDo_def field_def split: prod.splits if_splits sum.splits)

lemma fieldStep_keeps:
  assumes "fieldStep v a = Inr a'"
  shows "theme a' = theme a \<and> pageTitle a' = pageTitle a \<and> contentBits a' = contentBits a
       \<and> setPassword a' = setPassword a \<and> setUser a' = setUser a"
  using assms unfolding fieldStep_def
  by (auto simp: Let_def thenDo_def field_def split: prod.splits if_splits sum.splits)

lemma fieldStep_total:
  assumes "element v \<noteq> ''number''" "element v \<noteq> ''range''"
  shows "\<exists>a'. fieldStep v a = Inr a'"
  using assms unfolding fieldStep_def
  by (auto simp: Let_def field_def split: prod.splits)

lemma metaStep_html: "htmlList (metaStep v a) = htmlList a @ metaFragments v"
  by (simp add: metaStep_def metaFragments_def initial_def)

lemma metaStep_keeps: "answer (metaStep v a) = answer a \<and> resParse (metaStep v a) = resParse a"
  by (simp add: metaStep_def)

lemma metaPass_html: "htmlList (metaPass vs a) = htmlList a @ concat (map metaFragments vs)"
  by (induction vs arbitrary: a) (simp_all add: metaStep_html)

lemma metaPass_keeps: "answer (metaPass vs a) = answer a \<and> resParse (metaPass vs a) = resParse a"
  by (induction vs arbitrary: a) (simp_all add: metaStep_keeps)

lemma fieldPass_html:
  "fieldPass vs a = Inr a' \<Longrightarrow> htmlList a' = htmlList a @ concat (map fragments vs)"
proof (induction vs arbitrary: a)
  case Nil
  then show ?case by simp
next
  case (Cons v vs)
  then obtain b where b: "fieldStep v a = Inr b" "fieldPass vs b = Inr a'"
    by (auto simp: thenDo_def split: sum.splits)
  show ?case using Cons.IH[OF b(2)] fieldStep_html[OF b(1)] by simp
qed

lemma fieldPass_answer:
  "fieldPass vs a = Inr a' \<Longrightarrow>
   answer a' = answer a @ map answerField (filter isFieldKind vs)
   \<and> resParse a' = resParse a @ map extraction (filter isFieldKind vs)"
proof (induction vs arbitrary: a)
  case Nil
  then show ?case by simp
next
  case (Cons v vs)
  then obtain b where b: "fieldStep v a = Inr b" "fieldPass vs b = Inr a'"
    by (auto simp: thenDo_def split: sum.splits)
  show ?case using Cons.IH[OF b(2)] fieldStep_answer[OF b(1)] by simp
qed

lemma fieldPass_keeps:
  "fieldPass vs a = Inr a' \<Longrightarrow>
   theme a' = theme a \<and> pageTitle a' = pageTitle a \<and> contentBits a' = contentBits a
   \<and> setPassword a' = setPassword a \<and> setUser a' = setUser a"
proof (induction vs arbitrary: a)
  case Nil
  then show ?case by simp
next
  case (Cons v vs)
  then obtain b where b: "fieldStep v a = Inr b" "fieldPass vs b = Inr a'"
    by (auto simp: thenDo_def split: sum.splits)
  show ?case using Cons.IH[OF b(2)] fieldStep_keeps[OF b(1)] by simp
qed


lemma fragments_other:
  "\<not> isFieldKind v \<Longrightarrow> element v \<noteq> ''form-paragraph'' \<Longrightarrow> fragments v = []"
  by (simp add: fragments_def fieldStep_def isFieldKind_def initial_def)


lemma concat_map_filter:
  "(\<And>x. x \<in> set xs \<Longrightarrow> \<not> P x \<Longrightarrow> f x = []) \<Longrightarrow>
   concat (map f xs) = concat (map f (filter P xs))"
  by (induction xs) auto

lemma assemble_parts:
  assumes "assemble values = Inr a"
  shows "\<exists>b. fieldPass values ((metaPass values initial)\<lparr>htmlList := htmlList (metaPass values initial) @ [formOpen]\<rparr>) = Inr b
           \<and> a = b\<lparr>htmlList := htmlList b @ [submitControl, formClose]\<rparr>"
  using assms unfolding assemble_def
  by (auto simp: Let_def thenDo_def split: sum.splits)

text \<open>
  Sample values: a title, a paragraph and three fields, none in error; and values with
  no field at all.
\<close>

definition sampleValues :: "genValue list" where
  "sampleValues =
     [zeroValue\<lparr>element := ''input'', title := ''Name'', value := ''First and last name''\<rparr>,
      zeroValue\<lparr>element := ''form-title'', value := ''Merveilles Stickers''\<rparr>,
      zeroValue\<lparr>element := ''form-paragraph'', value := ''Pick a size.''\<rparr>,
      zeroValue\<lparr>element := ''radio'', title := ''Size'', value := ''Small, Large''\<rparr>,
      zeroValue\<lparr>element := ''number'', title := ''Sticker sheet amount'', key := ''amount'',
                 value := ''min=1, max=5''\<rparr>]"


lemma sampleValues_assembled: "\<not> isl (assemble sampleValues)"
  by (simp add: sampleValues_def zeroValue_def assemble_eval thenDo_def strings_eval class_eval elemAt_def)

text \<open>
  What the second loop appends for a field directive is an entry of its own: it opens
  and closes a \<open>div\<close>, and one of its fragments is an element with the name attribute
  of the directive's resolved key.
\<close>

lemma contains_middle: "contains (a @ s @ b) s"
proof (induction a)
  case Nil
  show ?case
  proof (cases "s @ b")
    case Nil
    then show ?thesis by simp
  next
    case (Cons c cs)
    have "prefix s (c # cs)" using Cons by (metis prefixI)
    then show ?thesis using Cons by simp
  qed
next
  case (Cons c a)
  then show ?case by simp
qed

definition nameAttribute :: "string \<Rightarrow> string" where
  \<open>nameAttribute k = ''name="'' @ k @ ''"''\<close>

lemma contains_name:
  \<open>contains (a @ '' name="'' @ k @ ''"'' @ b) (nameAttribute k)\<close>
  using contains_middle[of "a @ '' ''" "nameAttribute k" b] by (simp add: nameAttribute_def)

lemma splitFrom_parts: "splitFrom cur s sep \<noteq> []"
  by (induction s arbitrary: cur) auto

lemma fieldStep_from_initial:
  assumes "fieldStep v a = Inr a'"
  shows "\<exists>b. fieldStep v initial = Inr b"
proof (cases "optionPairs (Split (value v) '','') []")
  case (Inl e)
  then show ?thesis using assms unfolding fieldStep_def
    by (auto simp: Let_def thenDo_def split: prod.splits if_splits)
next
  case (Inr opts)
  then show ?thesis unfolding fieldStep_def
    by (auto simp: Let_def thenDo_def split: prod.splits if_splits)
qed

lemma radioOptions_first:
  \<open>radioOptions (val # rest) k [] =
     [''<span>'',
      ''<input type="radio" id="'' @ k @ ''-option-'' @ ToLower (TrimSpace val)
        @ ''" value="'' @ ToLower (TrimSpace val) @ ''" name="'' @ k @ ''"/>'',
      label (k @ ''-option-'' @ ToLower (TrimSpace val)) (TrimSpace val),
      ''</span>'']
     @ radioOptions rest k []\<close>
  using radioOptions_from_empty[of rest k "[_, _, _, _]"] by (simp add: Let_def)

lemma fragments_entry:
  assumes "isFieldKind v" and "fieldStep v a = Inr a'"
  shows "hd (fragments v) = ''<div>'' \<and> last (fragments v) = ''</div>''
       \<and> (\<exists>fragment \<in> set (fragments v). contains fragment (nameAttribute (fst (formatKeyAndTitle v))))"
proof -
  obtain b where b: "fieldStep v initial = Inr b" using fieldStep_from_initial[OF assms(2)] by blast
  then have f: "fragments v = htmlList b" by (simp add: fragments_def)
  obtain k t where kt: "formatKeyAndTitle v = (k, t)" by (cases "formatKeyAndTitle v")
  obtain val rest where sp: "Split (value v) '','' = val # rest"
    using splitFrom_parts[of "[]" "value v" "'',''"] by (cases "Split (value v) '',''") (auto simp: Split_def)
  note c = contains_name[of _ k]
  consider "element v = ''textarea''" | "element v = ''input''" | "element v = ''hidden''"
    | "element v = ''email''" | "element v = ''number''" | "element v = ''range''"
    | "element v = ''radio''"
    using assms(1) by (auto simp: isFieldKind_def)
  then show ?thesis
  proof cases
    case 1
    then show ?thesis using b kt c[of \<open>''<textarea '' @ _ @ '' placeholder="'' @ _ @ ''"''\<close> \<open>''></textarea>''\<close>]
      unfolding f by (auto simp: fieldStep_def Let_def field_def initial_def simp del: contains.simps)
  next
    case 2
    then show ?thesis using b kt c[of \<open>''<input type="text" '' @ _ @ '' placeholder="'' @ _ @ ''"''\<close> \<open>''/>''\<close>]
      unfolding f by (auto simp: fieldStep_def Let_def field_def initial_def simp del: contains.simps)
  next
    case 3
    then show ?thesis using b kt c[of \<open>''<input type="hidden" '' @ _ @ '' value="'' @ _ @ ''"''\<close> \<open>''/>''\<close>]
      unfolding f by (auto simp: fieldStep_def Let_def field_def initial_def simp del: contains.simps)
  next
    case 4
    then show ?thesis using b kt
        c[of \<open>''<input type="email" '' @ _ @ '' placeholder="email@provider.tld" pattern="'' @ _ @ ''",''\<close> \<open>''/>''\<close>]
      unfolding f by (auto simp: fieldStep_def Let_def field_def initial_def simp del: contains.simps)
  next
    case 5
    then show ?thesis using b kt c[of \<open>''<input type="number" '' @ _ @ '' '' @ _\<close> \<open>''/>''\<close>]
      unfolding f
      by (auto simp: fieldStep_def Let_def field_def initial_def thenDo_def simp del: contains.simps
          split: sum.splits)
  next
    case 6
    then show ?thesis using b kt c[of \<open>''<input type="range" '' @ _ @ '' '' @ _\<close> \<open>''/>''\<close>]
      unfolding f
      by (auto simp: fieldStep_def Let_def field_def initial_def thenDo_def simp del: contains.simps
          split: sum.splits)
  next
    case 7
    define el where \<open>el = ''<input type="radio" id="'' @ k @ ''-option-'' @ ToLower (TrimSpace val)
        @ ''" value="'' @ ToLower (TrimSpace val) @ ''" name="'' @ k @ ''"/>''\<close>
    have r: "radioOptions (val # rest) k [''<div>'', ''<span>'' @ title v @ ''</span>'']
        = [''<div>'', ''<span>'' @ title v @ ''</span>'']
          @ [''<span>'', el, label (k @ ''-option-'' @ ToLower (TrimSpace val)) (TrimSpace val),
             ''</span>'']
          @ radioOptions rest k []"
      using radioOptions_from_empty[of "val # rest" k "[''<div>'', ''<span>'' @ title v @ ''</span>'']"]
      unfolding radioOptions_first el_def by simp
    have h: "htmlList b = radioOptions (val # rest) k [''<div>'', ''<span>'' @ title v @ ''</span>''] @ [''</div>'']"
      using b 7 kt sp
      by (auto simp: fieldStep_def Let_def field_def initial_def simp del: radioOptions.simps)
    have e: "contains el (nameAttribute k)"
      unfolding el_def
      using c[of \<open>''<input type="radio" id="'' @ k @ ''-option-'' @ ToLower (TrimSpace val)
        @ ''" value="'' @ ToLower (TrimSpace val) @ ''"''\<close> \<open>''/>''\<close>]
      by (simp del: contains.simps)
    have "el \<in> set (htmlList b)" unfolding h r by simp
    then show ?thesis using e kt unfolding f h r by (auto simp del: contains.simps)
  qed
qed

lemma fieldPass_steps:
  "fieldPass vs a = Inr a' \<Longrightarrow> v \<in> set vs \<Longrightarrow> \<exists>b b'. fieldStep v b = Inr b'"
proof (induction vs arbitrary: a)
  case Nil
  then show ?case by simp
next
  case (Cons u vs)
  then obtain b where b: "fieldStep u a = Inr b" "fieldPass vs b = Inr a'"
    by (auto simp: thenDo_def split: sum.splits)
  show ?case
  proof (cases "v = u")
    case True
    then show ?thesis using b(1) by blast
  next
    case False
    then show ?thesis using Cons.IH[OF b(2)] Cons.prems(2) by simp
  qed
qed

text \<open>
  Claim C6: when the assembly completes, the fields of the answer structure, the
  statements of the extraction routine and the fragments of the body are those of the
  field directives (and, in the body, of the paragraphs between them), each list in
  the order of the directives; and the fragments of every field directive are an
  entry of the body that names the directive's key.
\<close>

theorem assemble_preserves_order:
  assumes "assemble values = Inr a"
  shows "FormAnswer (generated a) = map answerField (filter isFieldKind values)
       \<and> ParsePost (generated a) = map extraction (filter isFieldKind values)
       \<and> htmlList a =
           concat (map metaFragments values) @ [formOpen]
           @ concat (map fragments
               (filter (\<lambda>v. isFieldKind v \<or> element v = ''form-paragraph'') values))
           @ [submitControl, formClose]
       \<and> (\<forall>v \<in> set values. isFieldKind v \<longrightarrow>
             fragments v \<noteq> [] \<and> hd (fragments v) = ''<div>'' \<and> last (fragments v) = ''</div>''
             \<and> (\<exists>fragment \<in> set (fragments v).
                   contains fragment (nameAttribute (fst (formatKeyAndTitle v)))))"
proof -
  let ?a0 = "(metaPass values initial)\<lparr>htmlList := htmlList (metaPass values initial) @ [formOpen]\<rparr>"
  obtain b where b: "fieldPass values ?a0 = Inr b"
    and a: "a = b\<lparr>htmlList := htmlList b @ [submitControl, formClose]\<rparr>"
    using assemble_parts[OF assms] by blast
  have ans: "answer a = map answerField (filter isFieldKind values)"
    and res: "resParse a = map extraction (filter isFieldKind values)"
    using fieldPass_answer[OF b] metaPass_keeps[of "values" initial] a
    by (simp_all add: initial_def)
  have "concat (map fragments values)
      = concat (map fragments
          (filter (\<lambda>v. isFieldKind v \<or> element v = ''form-paragraph'') values))"
    by (rule concat_map_filter) (simp add: fragments_other)
  then have html: "htmlList a =
           concat (map metaFragments values) @ [formOpen]
           @ concat (map fragments
               (filter (\<lambda>v. isFieldKind v \<or> element v = ''form-paragraph'') values))
           @ [submitControl, formClose]"
    using fieldPass_html[OF b] metaPass_html[of "values" initial] a
    by (simp add: initial_def)
  have entry: "fragments v \<noteq> [] \<and> hd (fragments v) = ''<div>'' \<and> last (fragments v) = ''</div>''
             \<and> (\<exists>fragment \<in> set (fragments v).
                   contains fragment (nameAttribute (fst (formatKeyAndTitle v))))"
    if v: "v \<in> set values" "isFieldKind v" for v
  proof -
    obtain c c' where "fieldStep v c = Inr c'" using fieldPass_steps[OF b v(1)] by blast
    from fragments_entry[OF v(2) this] show ?thesis by auto
  qed
  show ?thesis using ans res html entry by (simp add: generated_def)
qed

theorem assemble_preserves_order_witness:
  \<open>FormAnswer (generated (projr (assemble sampleValues)))
     = [StringField ''Name'' [(''json'', ''name'')],
        StringField ''Size'' [(''json'', ''size'')],
        StringField ''Amount'' [(''json'', ''amount'')]]
   \<and> ParsePost (generated (projr (assemble sampleValues)))
     = [AssignPostFormValue ''Name'' ''name'',
        AssignPostFormValue ''Size'' ''size'',
        AssignPostFormValue ''Amount'' ''amount'']
   \<and> htmlList (projr (assemble sampleValues))
     = concat (map metaFragments sampleValues) @ [formOpen]
       @ concat (map fragments
           (filter (\<lambda>v. isFieldKind v \<or> element v = ''form-paragraph'') sampleValues))
       @ [submitControl, formClose]
   \<and> concat (map fragments
           (filter (\<lambda>v. isFieldKind v \<or> element v = ''form-paragraph'') sampleValues))
     = [''<div>'', ''<label for="name">Name</label>'',
        ''<input type="text"  placeholder="First and last name" name="name"/>'', ''</div>'',
        ''<p>Pick a size.</p>'',
        ''<div>'', ''<span>Size</span>'',
        ''<span>'', ''<input type="radio" id="size-option-small" value="small" name="size"/>'',
        ''<label for="size-option-small">Small</label>'', ''</span>'',
        ''<span>'', ''<input type="radio" id="size-option-large" value="large" name="size"/>'',
        ''<label for="size-option-large">Large</label>'', ''</span>'',
        ''</div>'',
        ''<div>'', ''<label for="amount">Amount</label>'',
        ''<input type="number"  min="1" max="5"  name="amount"/>'', ''</div>'']
   \<and> contains ''<input type="number"  min="1" max="5"  name="amount"/>'' (nameAttribute ''amount'')\<close>
proof -
  have h: "assemble sampleValues = Inr (projr (assemble sampleValues))"
    using sampleValues_assembled by simp
  have 1: "map answerField (filter isFieldKind sampleValues)
     = [StringField ''Name'' [(''json'', ''name'')],
        StringField ''Size'' [(''json'', ''size'')],
        StringField ''Amount'' [(''json'', ''amount'')]]"
    by (simp add: sampleValues_def zeroValue_def isFieldKind_def answerField_def
        formatKeyAndTitle_def jsonTag_def strings_eval class_eval)
  have 2: "map extraction (filter isFieldKind sampleValues)
     = [AssignPostFormValue ''Name'' ''name'',
        AssignPostFormValue ''Size'' ''size'',
        AssignPostFormValue ''Amount'' ''amount'']"
    by (simp add: sampleValues_def zeroValue_def isFieldKind_def extraction_def
        formatKeyAndTitle_def strings_eval class_eval)
  have 3: \<open>concat (map fragments
           (filter (\<lambda>v. isFieldKind v \<or> element v = ''form-paragraph'') sampleValues))
     = [''<div>'', ''<label for="name">Name</label>'',
        ''<input type="text"  placeholder="First and last name" name="name"/>'', ''</div>'',
        ''<p>Pick a size.</p>'',
        ''<div>'', ''<span>Size</span>'',
        ''<span>'', ''<input type="radio" id="size-option-small" value="small" name="size"/>'',
        ''<label for="size-option-small">Small</label>'', ''</span>'',
        ''<span>'', ''<input type="radio" id="size-option-large" value="large" name="size"/>'',
        ''<label for="size-option-large">Large</label>'', ''</span>'',
        ''</div>'',
        ''<div>'', ''<label for="amount">Amount</label>'',
        ''<input type="number"  min="1" max="5"  name="amount"/>'', ''</div>'']\<close>
    by (simp add: sampleValues_def zeroValue_def isFieldKind_def fragments_def assemble_eval
        thenDo_def elemAt_def strings_eval class_eval)
  have 4: \<open>contains ''<input type="number"  min="1" max="5"  name="amount"/>'' (nameAttribute ''amount'')\<close>
    by (simp add: nameAttribute_def)
  show ?thesis using assemble_preserves_order[OF h] 1 2 3 4 by simp
qed




section \<open>The rendered pages\<close>

text \<open>
  \<open>stylesheetWith bg fg tc\<close> is the text of the built-in stylesheet with the three
  values in their places, and \<open>document t s c\<close> the text of the page with a title, a
  stylesheet and a content in their places.
\<close>

definition stylesheetWith :: "string \<Rightarrow> string \<Rightarrow> string \<Rightarrow> string" where
  "stylesheetWith bg fg tc = concat (map (\<lambda>l. l @ [LF])
     [''<style>'',
      indent 2 ''html {'',
      indent 3 (''background: '' @ bg @ '';''),
      indent 3 (''color: '' @ fg @ '';''),
      indent 3 ''padding-left: 2rem;'',
      indent 3 ''padding-right: 2rem;'',
      indent 3 ''padding-top: 1rem;'',
      indent 2 ''}'',
      indent 2 ''h1 {'',
      indent 3 (''color: '' @ tc @ '';''),
      indent 2 ''}'',
      indent 2 ''* {'',
      indent 3 ''padding: 0;'',
      indent 3 ''margin-bottom: 0.5rem;'',
      indent 2 ''}'',
      indent 2 ''div {'',
      indent 3 ''display: grid;'',
      indent 3 ''max-width: 600px;'',
      indent 3 ''align-items: center;'',
      indent 2 ''}'',
      ''</style>''])"

definition document :: "string \<Rightarrow> string \<Rightarrow> string \<Rightarrow> string" where
  "document t s c = Join
     [''<!DOCTYPE html>'',
      ''<html>'',
      indent 1 ''<head>'',
      indent 2 (''<title>'' @ t @ ''</title>''),
      indent 2 s,
      indent 1 ''</head>'',
      indent 1 ''<body>'',
      indent 1 c,
      indent 1 ''</body>'',
      ''</html>''] [LF]"

lemmas template_eval = Parse_def actionField_def blank_def thenDo_def indent_def
  replicate_numeral class_eval

lemma renderStylesheet_builtin:
  "renderStylesheet stylesheetTemplate d =
     Inr (stylesheetWith (cssValueFilter (Background d)) (cssValueFilter (Body d))
            (cssValueFilter (TitleColor d)))"
  by (simp add: renderStylesheet_def stylesheetTemplate_def stylesheetWith_def styleBinding_def
      template_eval)



lemma cssValueFilter_empty: "cssValueFilter [] = []"
  by (simp add: cssValueFilter_def decodeCSS_def cssUnsafe_def ToLower_def)

lemma ReplaceAll_htmlTemplate:
  "ReplaceAll htmlTemplate ''%SENTINEL%'' buf =
     Join [''<!DOCTYPE html>'', ''<html>'', indent 1 ''<head>'',
           indent 2 ''<title>{{ .Title }}</title>'', indent 2 buf, indent 1 ''</head>'',
           indent 1 ''<body>'', indent 1 ''{{ .Content }}'', indent 1 ''</body>'',
           ''</html>''] [LF]"
  by (simp add: htmlTemplate_def indent_def replicate_numeral class_eval)


lemma document_holds_stylesheet:
  "document t s c =
     ''<!DOCTYPE html>'' @ [LF] @ ''<html>'' @ [LF, TAB] @ ''<head>'' @ [LF, TAB, TAB]
     @ ''<title>'' @ t @ ''</title>'' @ [LF, TAB, TAB] @ s @ [LF, TAB] @ ''</head>''
     @ [LF, TAB] @ ''<body>'' @ [LF, TAB] @ c @ [LF, TAB] @ ''</body>'' @ [LF] @ ''</html>''"
  by (simp add: document_def indent_def replicate_numeral)

text \<open>
  A run with a format of one line, the title of the form, and no stylesheet flag; and
  the stylesheet as the built-in template renders it for an assembly.
\<close>

definition plainRun :: world where
  "plainRun = \<lparr>formatFp = ''form.txt'', stylesheetFp = [],
     readFile = (\<lambda>path. if path = ''form.txt'' then Inr ''form-title = Merveilles Stickers''
                         else Inl ''open: no such file or directory''),
     mkdirAll = (\<lambda>path. None), writeFile = (\<lambda>path. None)\<rparr>"

definition styleOf :: "assembly \<Rightarrow> string" where
  "styleOf a =
     stylesheetWith (cssValueFilter (background (theme a))) (cssValueFilter (body (theme a)))
       (cssValueFilter (titleColor (theme a)))"

lemma styleDataOf_fields:
  "Background (styleDataOf t) = background t \<and> Body (styleDataOf t) = body t
   \<and> TitleColor (styleDataOf t) = titleColor t"
  by (simp add: styleDataOf_def Let_def)

lemma stylesheetFor_builtin:
  "stylesheetFp w = [] \<Longrightarrow> stylesheetFor w a = Inr (styleOf a)"
  by (simp add: stylesheetFor_def loadStylesheet_def renderStylesheet_builtin styleOf_def
      styleDataOf_fields)

lemma metaStep_theme:
  "element v \<notin> {''form-bg'', ''form-titlecolor'', ''form-fg''} \<Longrightarrow> theme (metaStep v a) = theme a"
  by (simp add: metaStep_def)

lemma metaPass_theme:
  "\<forall>v \<in> set vs. element v \<notin> {''form-bg'', ''form-titlecolor'', ''form-fg''} \<Longrightarrow>
   theme (metaPass vs a) = theme a"
  by (induction vs arbitrary: a) (simp_all add: metaStep_theme)

lemma assemble_theme:
  assumes "assemble values = Inr a"
  shows "theme a = theme (metaPass values initial)"
proof -
  obtain b where b: "fieldPass values
      ((metaPass values initial)\<lparr>htmlList := htmlList (metaPass values initial) @ [formOpen]\<rparr>) = Inr b"
    and a: "a = b\<lparr>htmlList := htmlList b @ [submitControl, formClose]\<rparr>"
    using assemble_parts[OF assms] by blast
  show ?thesis using fieldPass_keeps[OF b] a by simp
qed

lemma plainRun_values:
  "parseFormat ''form-title = Merveilles Stickers''
     = Inr [zeroValue\<lparr>element := ''form-title'', value := ''Merveilles Stickers''\<rparr>]"
  by (simp add: parse_eval regexp_eval strings_eval class_eval)

text \<open>
  Claim C2 says that without a theme directive the rendered stylesheet holds built-in
  default colours and no empty colour declaration. The built-in stylesheet has no
  colour of its own: for the format \<open>form-title = Merveilles Stickers\<close> the three
  values are empty, and the stylesheet reads \<open>background: ;\<close> and \<open>color: ;\<close>.
\<close>

theorem stylesheet_without_theme_has_empty_values:
  \<open>thenDo (thenDo (parseFormat ''form-title = Merveilles Stickers'') assemble)
       (stylesheetFor plainRun)
     = Inr (stylesheetWith [] [] [])
   \<and> contains (stylesheetWith [] [] []) ''background: ;''
   \<and> contains (stylesheetWith [] [] []) ''color: ;''\<close>
proof -
  have 1: "thenDo (thenDo (parseFormat ''form-title = Merveilles Stickers'') assemble)
       (stylesheetFor plainRun) = Inr (stylesheetWith [] [] [])"
    by (simp add: plainRun_values zeroValue_def assemble_eval thenDo_def
        stylesheetFor_builtin plainRun_def styleOf_def cssValueFilter_empty)
  have 2: "contains (stylesheetWith [] [] []) ''background: ;''"
    by (simp add: stylesheetWith_def indent_def replicate_numeral class_eval)
  have 3: "contains (stylesheetWith [] [] []) ''color: ;''"
    by (simp add: stylesheetWith_def indent_def replicate_numeral class_eval)
  show ?thesis using 1 2 3 by blast
qed

text \<open>
  Claim C2 as amended: when no value is a \<open>form-bg\<close>, \<open>form-titlecolor\<close> or \<open>form-fg\<close>
  directive and no stylesheet file is given, the rendered stylesheet is the built-in
  one with its three colour values empty.
\<close>

theorem stylesheet_without_theme:
  assumes "assemble values = Inr a"
    and "\<forall>v \<in> set values. element v \<notin> {''form-bg'', ''form-titlecolor'', ''form-fg''}"
    and "stylesheetFp w = []"
  shows "stylesheetFor w a = Inr (stylesheetWith [] [] [])"
proof -
  have "theme a = theme initial"
    using assemble_theme[OF assms(1)] metaPass_theme[OF assms(2)] by simp
  then show ?thesis
    using stylesheetFor_builtin[OF assms(3), of a]
    by (simp add: styleOf_def initial_def cssValueFilter_empty)
qed

theorem stylesheet_without_theme_witness:
  "stylesheetFor plainRun
     (projr (assemble [zeroValue\<lparr>element := ''form-title'', value := ''Merveilles Stickers''\<rparr>]))
   = Inr (stylesheetWith [] [] [])"
proof -
  let ?vs = "[zeroValue\<lparr>element := ''form-title'', value := ''Merveilles Stickers''\<rparr>]"
  have "\<not> isl (assemble ?vs)"
    by (simp add: zeroValue_def assemble_eval thenDo_def)
  then have h: "assemble ?vs = Inr (projr (assemble ?vs))" by simp
  have n: "\<forall>v \<in> set ?vs. element v \<notin> {''form-bg'', ''form-titlecolor'', ''form-fg''}"
    by (simp add: zeroValue_def)
  have s: "stylesheetFp plainRun = []" by (simp add: plainRun_def)
  show ?thesis by (rule stylesheet_without_theme[OF h n s])
qed




section \<open>Further properties of the parser\<close>

text \<open>
  When \<open>parseFormat\<close> returns, it returns one value for every line the scanner
  found, in the order of the lines: no line is skipped. It does not return when a line
  has no \<open>=\<close>.
\<close>

lemma parseLines_values:
  "parseLines ls acc = Inr vs \<Longrightarrow> \<exists>ws. vs = acc @ ws \<and> map parseLine ls = map Inr ws"
proof (induction ls arbitrary: acc)
  case Nil
  then show ?case by simp
next
  case (Cons l ls)
  then obtain v where v: "parseLine l = Inr v" "parseLines ls (acc @ [v]) = Inr vs"
    by (auto simp: thenDo_def split: sum.splits)
  from Cons.IH[OF v(2)] obtain ws where "vs = (acc @ [v]) @ ws" "map parseLine ls = map Inr ws"
    by blast
  then have "vs = acc @ (v # ws) \<and> map parseLine (l # ls) = map Inr (v # ws)"
    using v(1) by simp
  then show ?case by blast
qed

lemma parseFormat_one_value_per_line:
  assumes "parseFormat format = Inr vs"
  shows "map parseLine (scanLines format) = map Inr vs"
  using parseLines_values[of "scanLines format" "[]" vs] assms
  by (auto simp: parseFormat_def)

lemma parseFormat_one_value_per_line_witness:
  "map parseLine (scanLines ''form-title = Merveilles Stickers'')
     = map Inr [zeroValue\<lparr>element := ''form-title'', value := ''Merveilles Stickers''\<rparr>]"
  by (rule parseFormat_one_value_per_line[OF plainRun_values])

lemma parseLine_without_equals:
  "CHR ''='' \<notin> set line \<Longrightarrow> parseLine line = Inl SliceBoundsOutOfRange"
  by (simp add: parseLine_def Index_byte slice_def thenDo_def)

lemma parseFormat_panics_without_equals:
  assumes "line \<in> set (scanLines format)" and "CHR ''='' \<notin> set line"
  shows "\<exists>e. parseFormat format = Inl e"
proof (cases "parseFormat format")
  case (Inl e)
  then show ?thesis by blast
next
  case (Inr vs)
  then have "map parseLine (scanLines format) = map Inr vs"
    using parseLines_values[of "scanLines format" "[]" vs] by (auto simp: parseFormat_def)
  then have "parseLine line \<in> set (map Inr vs)"
    using assms(1) by (metis image_eqI list.set_map)
  then show ?thesis using parseLine_without_equals[OF assms(2)] by auto
qed

lemma parseFormat_panics_without_equals_witness:
  "\<exists>e. parseFormat (''input[Name] = x'' @ [LF] @ ''# a comment'') = Inl e"
proof -
  have 1: "''# a comment'' \<in> set (scanLines (''input[Name] = x'' @ [LF] @ ''# a comment''))"
    by (simp add: scanLines_def dropCR_def MaxScanTokenSize_def class_eval)
  have 2: "CHR ''='' \<notin> set ''# a comment''" by simp
  show ?thesis by (rule parseFormat_panics_without_equals[OF 1 2])
qed

section \<open>When the second loop completes\<close>

text \<open>
  The loop over the pairs of a number or range value completes exactly when every
  pair has an \<open>=\<close>, and this is the only panic of the two loops: the assembly
  completes exactly when every number and range value is of this form.
\<close>

lemma splitFrom_length:
  "length (splitFrom cur s [c]) = Suc (length (filter (\<lambda>x. x = c) s))"
  by (induction s arbitrary: cur) auto

lemma Split_parts: "1 < length (Split s [c]) \<longleftrightarrow> c \<in> set s"
  by (simp add: Split_def splitFrom_length filter_empty_conv)

lemma spaceRunes_no_equals: "\<forall>q \<in> set spaceRunes. CHR ''='' \<notin> set q"
  by (simp add: spaceRunes_def)

lemma whiteSpace_no_equals: "whiteSpace a \<Longrightarrow> CHR ''='' \<notin> set a"
  unfolding whiteSpace_def using spaceRunes_no_equals by fastforce

lemma TrimSpace_equals: "CHR ''='' \<in> set (TrimSpace p) \<longleftrightarrow> CHR ''='' \<in> set p"
proof -
  obtain a b where "p = a @ TrimSpace p @ b" "whiteSpace a" "whiteSpace b"
    using TrimSpace_trimmedFrom[of p] unfolding trimmedFrom_def by blast
  then show ?thesis using whiteSpace_no_equals
    by (metis Un_iff set_append)
qed

lemma Split_nonempty: "Split s [c] \<noteq> []"
  using splitFrom_length[of "[]" s c] by (auto simp: Split_def)

lemma optionPairs_completes:
  "(\<exists>r. optionPairs ps acc = Inr r) \<longleftrightarrow> (\<forall>p \<in> set ps. CHR ''='' \<in> set p)"
proof (induction ps arbitrary: acc)
  case Nil
  show ?case by simp
next
  case (Cons p ps)
  have n: "0 < length (Split (TrimSpace p) ''='')"
    using Split_nonempty[of "TrimSpace p" "CHR ''=''"] by simp
  show ?case
  proof (cases "CHR ''='' \<in> set p")
    case True
    then have "1 < length (Split (TrimSpace p) ''='')"
      using Split_parts[of "TrimSpace p" "CHR ''=''"] TrimSpace_equals by simp
    then show ?thesis using Cons[of "acc @ _"] True n
      by (simp add: Let_def thenDo_def elemAt_def)
  next
    case False
    then have "\<not> 1 < length (Split (TrimSpace p) ''='')"
      using Split_parts[of "TrimSpace p" "CHR ''=''"] TrimSpace_equals by simp
    then show ?thesis using False n
      by (simp add: Let_def thenDo_def elemAt_def)
  qed
qed

definition pairsHaveEquals :: "genValue \<Rightarrow> bool" where
  "pairsHaveEquals v \<longleftrightarrow> list_all (\<lambda>p. CHR ''='' \<in> set p) (Split (value v) '','')"

lemma fieldStep_completes:
  "(\<exists>a'. fieldStep v a = Inr a') \<longleftrightarrow>
   (element v = ''number'' \<or> element v = ''range'' \<longrightarrow> pairsHaveEquals v)"
proof (cases "element v = ''number'' \<or> element v = ''range''")
  case False
  then show ?thesis using fieldStep_total[of v a] by simp
next
  case True
  show ?thesis
  proof (cases "optionPairs (Split (value v) '','') []")
    case (Inl e)
    then have "\<not> pairsHaveEquals v"
      using optionPairs_completes[of "Split (value v) '',''" "[]"]
      by (auto simp: pairsHaveEquals_def list_all_iff)
    then show ?thesis using True Inl
      by (auto simp: fieldStep_def Let_def thenDo_def)
  next
    case (Inr r)
    then have "pairsHaveEquals v"
      using optionPairs_completes[of "Split (value v) '',''" "[]"]
      by (auto simp: pairsHaveEquals_def list_all_iff)
    then show ?thesis using True Inr
      by (auto simp: fieldStep_def Let_def thenDo_def split: prod.splits)
  qed
qed

lemma fieldPass_completes:
  "(\<exists>a'. fieldPass vs a = Inr a') \<longleftrightarrow>
   (\<forall>v \<in> set vs. element v = ''number'' \<or> element v = ''range'' \<longrightarrow> pairsHaveEquals v)"
proof (induction vs arbitrary: a)
  case Nil
  show ?case by simp
next
  case (Cons v vs)
  show ?case
  proof (cases "fieldStep v a")
    case (Inl e)
    then show ?thesis using fieldStep_completes[of v a] by (auto simp: thenDo_def)
  next
    case (Inr b)
    then show ?thesis using fieldStep_completes[of v a] Cons[of b] by (auto simp: thenDo_def)
  qed
qed

lemma assemble_completes:
  "(\<exists>a. assemble values = Inr a) \<longleftrightarrow>
   (\<forall>v \<in> set values. element v = ''number'' \<or> element v = ''range'' \<longrightarrow> pairsHaveEquals v)"
  using fieldPass_completes[of "values"
      "(metaPass values initial)\<lparr>htmlList := htmlList (metaPass values initial) @ [formOpen]\<rparr>"]
  unfolding assemble_def
  by (auto simp: Let_def thenDo_def split: sum.splits)

lemma assemble_completes_witness:
  "(\<exists>a. assemble sampleValues = Inr a)
   \<and> \<not> (\<exists>a. assemble [zeroValue\<lparr>element := ''range'', title := ''Mood'', value := ''min=1, 5''\<rparr>] = Inr a)"
proof -
  have 1: "\<forall>v \<in> set sampleValues. element v = ''number'' \<or> element v = ''range'' \<longrightarrow> pairsHaveEquals v"
    by (simp add: sampleValues_def zeroValue_def pairsHaveEquals_def Split_def)
  have 2: "\<not> pairsHaveEquals (zeroValue\<lparr>element := ''range'', title := ''Mood'', value := ''min=1, 5''\<rparr>)"
    by (simp add: zeroValue_def pairsHaveEquals_def Split_def)
  show ?thesis
    using assemble_completes[of sampleValues] 1
      assemble_completes[of "[zeroValue\<lparr>element := ''range'', title := ''Mood'', value := ''min=1, 5''\<rparr>]"] 2
    by (simp add: zeroValue_def)
qed

section \<open>The required flag of the other fields\<close>

text \<open>
  The radio case does not read the required flag. In every other field case the
  fragment of the element holds the marker when the flag is set.
\<close>

lemma formatKeyAndTitle_required [simp]:
  "formatKeyAndTitle (v\<lparr>required := b\<rparr>) = formatKeyAndTitle v"
  by (simp add: formatKeyAndTitle_def)

lemma radio_ignores_required:
  "element v = ''radio'' \<Longrightarrow> fieldStep (v\<lparr>required := b\<rparr>) a = fieldStep v a"
  by (simp add: fieldStep_def)

lemma radio_ignores_required_witness:
  "fieldStep (zeroValue\<lparr>element := ''radio'', title := ''Size'', value := ''Small, Large'',
                         required := True\<rparr>) initial
   = fieldStep (zeroValue\<lparr>element := ''radio'', title := ''Size'', value := ''Small, Large''\<rparr>) initial"
  using radio_ignores_required[of "zeroValue\<lparr>element := ''radio'', title := ''Size'', value := ''Small, Large''\<rparr>" True initial]
  by (simp add: zeroValue_def)

lemma required_marker_written:
  assumes "required v" and "isFieldKind v" and "element v \<noteq> ''radio''"
    and "fieldStep v a = Inr a'"
  shows "\<exists>fragment \<in> set (fragments v). contains fragment '' required ''"
proof -
  have k: "\<exists>b. fieldStep v initial = Inr b"
    using fieldStep_completes[of v a] fieldStep_completes[of v initial] assms(4) by blast
  then obtain b where b: "fieldStep v initial = Inr b" by blast
  then have f: "fragments v = htmlList b" by (simp add: fragments_def)
  show ?thesis
    unfolding f using b assms(1,2,3)
    unfolding fieldStep_def isFieldKind_def
    by (auto simp: Let_def thenDo_def field_def initial_def
        split: prod.splits sum.splits if_splits)
qed

lemma required_marker_written_witness:
  \<open>\<exists>fragment \<in> set (fragments (zeroValue\<lparr>element := ''input'', title := ''Name'',
                                        value := ''placeholder'', required := True\<rparr>)).
      contains fragment '' required ''\<close>
proof -
  let ?v = "zeroValue\<lparr>element := ''input'', title := ''Name'', value := ''placeholder'', required := True\<rparr>"
  have 1: "required ?v" by (simp add: zeroValue_def)
  have 2: "isFieldKind ?v" by (simp add: zeroValue_def isFieldKind_def)
  have 3: "element ?v \<noteq> ''radio''" by (simp add: zeroValue_def)
  have "\<not> isl (fieldStep ?v initial)"
    by (simp add: zeroValue_def fieldStep_def Let_def field_def split: prod.splits)
  then have 4: "fieldStep ?v initial = Inr (projr (fieldStep ?v initial))" by simp
  show ?thesis by (rule required_marker_written[OF 1 2 3 4])
qed

section \<open>Examples of the specification\<close>

text \<open>
  The directive \<open>!input[Name] = placeholder\<close> with and without the \<open>!\<close>, and the
  directive \<open>radio[Size] = Small, Medium, Large\<close>: three options with the identifiers
  \<open>size-option-small\<close>, \<open>size-option-medium\<close> and \<open>size-option-large\<close> under the
  name \<open>size\<close>, and one field \<open>Size\<close> of the answer structure.
\<close>

lemma required_flag_example:
  \<open>map_sum id htmlList (thenDo (parseFormat ''!input[Name] = placeholder'') assemble)
     = Inr [formOpen, ''<div>'', ''<label for="name">Name</label>'',
            ''<input type="text" required placeholder="placeholder" name="name"/>'',
            ''</div>'', submitControl, formClose]
   \<and> map_sum id htmlList (thenDo (parseFormat ''input[Name] = placeholder'') assemble)
     = Inr [formOpen, ''<div>'', ''<label for="name">Name</label>'',
            ''<input type="text"  placeholder="placeholder" name="name"/>'',
            ''</div>'', submitControl, formClose]\<close>
  by (simp add: parse_eval regexp_eval strings_eval class_eval assemble_eval)

lemma radio_expansion_example:
  \<open>thenDo (parseFormat ''radio[Size] = Small, Medium, Large'') assemble
     = Inr \<lparr>htmlList =
              [formOpen, ''<div>'', ''<span>Size</span>'',
               ''<span>'',
               ''<input type="radio" id="size-option-small" value="small" name="size"/>'',
               ''<label for="size-option-small">Small</label>'',
               ''</span>'',
               ''<span>'',
               ''<input type="radio" id="size-option-medium" value="medium" name="size"/>'',
               ''<label for="size-option-medium">Medium</label>'',
               ''</span>'',
               ''<span>'',
               ''<input type="radio" id="size-option-large" value="large" name="size"/>'',
               ''<label for="size-option-large">Large</label>'',
               ''</span>'',
               ''</div>'', submitControl, formClose],
            theme = \<lparr>background = [], titleColor = [], body = []\<rparr>,
            setPassword = [], setUser = ''mouldy'', pageTitle = [], contentBits = [],
            answer = [StringField ''Size'' [(''json'', ''size'')]],
            resParse = [AssignPostFormValue ''Size'' ''size'']\<rparr>\<close>
  by (simp add: parse_eval regexp_eval strings_eval class_eval assemble_eval)

section \<open>The buffer of the two renderings\<close>

text \<open>
  \<open>Execute\<close> appends to its buffer, so whatever the stylesheet in the buffer is, the
  page as written starts with it.
\<close>

lemma Execute_appends: "Execute t d buf = buf @ Execute t d []"
proof (induction t arbitrary: buf)
  case Nil
  show ?case by simp
next
  case (Cons n t)
  show ?case
  proof (cases n)
    case (TextNode x)
    show ?thesis using Cons[of "buf @ x"] Cons[of x] by (simp add: TextNode)
  next
    case (FieldNode f)
    show ?thesis using Cons[of "buf @ _"] Cons[of "the (map_of d f)"]
      by (cases "map_of d f") (simp_all add: FieldNode)
  qed
qed

lemma page_follows_buffer:
  assumes "renderPage buf d = Inr page"
  shows "prefix buf page"
proof -
  obtain t where "Parse (ReplaceAll htmlTemplate ''%SENTINEL%'' buf) = Inr t"
    "page = Execute t (pageBinding d) buf"
    using assms by (auto simp: renderPage_def thenDo_def split: sum.splits)
  then show ?thesis using Execute_appends[of t "pageBinding d" buf] by simp
qed

lemma page_follows_buffer_witness:
  "prefix ''<style>body { margin: 0 }</style>''
     (projr (renderPage ''<style>body { margin: 0 }</style>''
               \<lparr>dataContent = ''<p>Hi</p>'', dataTitle = ''Hi''\<rparr>))"
proof -
  have "\<not> isl (renderPage ''<style>body { margin: 0 }</style>''
               \<lparr>dataContent = ''<p>Hi</p>'', dataTitle = ''Hi''\<rparr>)"
    by (simp add: renderPage_def ReplaceAll_htmlTemplate template_eval)
  then have h: "renderPage ''<style>body { margin: 0 }</style>''
               \<lparr>dataContent = ''<p>Hi</p>'', dataTitle = ''Hi''\<rparr>
      = Inr (projr (renderPage ''<style>body { margin: 0 }</style>''
               \<lparr>dataContent = ''<p>Hi</p>'', dataTitle = ''Hi''\<rparr>))" by simp
  show ?thesis by (rule page_follows_buffer[OF h])
qed

end
